theory Spec2Isabelle
  imports Complex_Main "HOL-Library.Char_ord" "HOL-Library.List_Lexorder"
begin

section \<open>Values, faults and the result record\<close>

text \<open>
  Python values that cross the boundary between a script and the engine. Dictionaries
  keep their insertion order, so they are association lists. \<open>PObject c\<close> is an
  instance of the class \<open>c\<close> that the script defines.
\<close>

datatype pyval =
    PNone
  | PBool bool
  | PInt int
  | PStr string
  | PTuple "pyval list"
  | PList "pyval list"
  | PDict "(pyval \<times> pyval) list"
  | PObject string

text \<open>
  A raised fault. \<open>Timeout_Error msg\<close> is an instance of the engine's own
  \<^verbatim>\<open>class _TimeoutError(Exception)\<close>; \<open>PyException ty msg\<close> is an instance of any
  other subclass of \<^verbatim>\<open>Exception\<close>, with \<^verbatim>\<open>type(e).__name__\<close> and \<^verbatim>\<open>str(e)\<close>;
  \<open>PyBaseException ty msg\<close> is a fault outside \<^verbatim>\<open>Exception\<close>, which
  \<^verbatim>\<open>except Exception\<close> does not catch; \<open>Unprintable ty e\<close> is an instance of a
  subclass of \<^verbatim>\<open>Exception\<close> named \<open>ty\<close> whose \<^verbatim>\<open>__str__\<close> raises the fault \<open>e\<close>.
\<close>

datatype exc =
    Timeout_Error string
  | PyException string string
  | PyBaseException string string
  | Unprintable string exc

text \<open>One entry of the call log: the dict with keys name, args, kwargs, result.\<close>

record call_record =
  rec_name :: string
  rec_args :: "pyval list"
  rec_kwargs :: "(string \<times> pyval) list"
  rec_result :: pyval

text \<open>
  The dataclass \<^verbatim>\<open>ExecutionResult\<close>, with its defaults. The field \<^verbatim>\<open>output\<close> is
  \<open>output_text\<close> here, since \<open>output\<close> is reserved.
\<close>

record ExecutionResult =
  output_text :: string
  error_output :: string
  return_value :: pyval
  tool_calls :: "call_record list"
  success :: bool
  error :: "string option"

definition ExecutionResult_default :: ExecutionResult where
  "ExecutionResult_default =
     \<lparr>output_text = [], error_output = [], return_value = PNone, tool_calls = [],
      success = True, error = None\<rparr>"

text \<open>
  \<^verbatim>\<open>ExecutionResult.to_string\<close>. Python's \<^verbatim>\<open>repr\<close> is the parameter \<open>repr\<close>. The
  expression \<^verbatim>\<open>a or b\<close> is \<open>a\<close> when \<open>a\<close> is truthy: a non-empty string here, and
  neither \<^verbatim>\<open>None\<close> nor the empty string for the \<open>error\<close> field.
\<close>

definition to_string :: "(pyval \<Rightarrow> string) \<Rightarrow> ExecutionResult \<Rightarrow> string" where
  "to_string repr r =
     (if success r then
        (if output_text r \<noteq> [] then output_text r
         else if return_value r \<noteq> PNone then repr (return_value r)
         else [])
      else
        (if error_output r \<noteq> [] then error_output r
         else (case error r of
                 None \<Rightarrow> ''Unknown error''
               | Some e \<Rightarrow> if e \<noteq> [] then e else ''Unknown error'')))"

section \<open>The import guard\<close>

text \<open>The set literal \<^verbatim>\<open>_SAFE_MODULES\<close>, in the order it is written.\<close>

definition SAFE_MODULES_list :: "string list" where
  "SAFE_MODULES_list =
     [''asyncio'', ''json'', ''math'', ''re'', ''datetime'', ''time'', ''calendar'',
      ''collections'', ''itertools'', ''functools'', ''operator'', ''bisect'', ''heapq'',
      ''typing'', ''types'', ''dataclasses'', ''enum'', ''abc'',
      ''string'', ''textwrap'', ''pprint'', ''copy'', ''io'',
      ''random'', ''statistics'', ''decimal'', ''fractions'',
      ''base64'', ''hashlib'', ''uuid'',
      ''urllib.parse'', ''concurrent.futures'']"

definition SAFE_MODULES :: "string set" where
  "SAFE_MODULES = set SAFE_MODULES_list"

text \<open>\<^verbatim>\<open>mod.split(".")[0]\<close>: the text before the first dot.\<close>

definition first_component :: "string \<Rightarrow> string" where
  "first_component m = takeWhile (\<lambda>c. c \<noteq> CHR ''.'') m"

text \<open>\<^verbatim>\<open>{mod.split(".")[0] for mod in _SAFE_MODULES if "." in mod}\<close>\<close>

definition SAFE_PARENT_PACKAGES :: "string set" where
  "SAFE_PARENT_PACKAGES =
     set (map first_component (filter (\<lambda>m. CHR ''.'' \<in> set m) SAFE_MODULES_list))"

text \<open>\<^verbatim>\<open>sep.join(xs)\<close>\<close>

fun join :: "string \<Rightarrow> string list \<Rightarrow> string" where
  "join sep [] = []"
| "join sep [x] = x"
| "join sep (x # y # ys) = x @ sep @ join sep (y # ys)"

text \<open>
  \<^verbatim>\<open>sorted(_SAFE_MODULES)\<close>: Python orders strings by code point, character by
  character, which is the lexicographic order on \<open>char list\<close>.
\<close>

definition available :: "string list" where
  "available = sorted_list_of_set SAFE_MODULES"

text \<open>
  \<^verbatim>\<open>_safe_import(name, globals, locals, fromlist, level)\<close>. \<open>Inr nm\<close> is the call
  \<^verbatim>\<open>builtins.__import__(name, globals, locals, fromlist, level)\<close>, the real loader;
  \<open>Inl\<close> is the raised \<^verbatim>\<open>ImportError\<close>.
\<close>

definition safe_import :: "string \<Rightarrow> int \<Rightarrow> exc + string" where
  "safe_import nm level =
     (if level \<noteq> 0 then Inl (PyException ''ImportError'' ''Relative imports are not allowed'')
      else if nm \<in> SAFE_MODULES then Inr nm
      else if nm \<in> SAFE_PARENT_PACKAGES then Inr nm
      else Inl (PyException ''ImportError''
                 (''Import of '' @ [CHR 0x27] @ nm @ [CHR 0x27] @ '' is not allowed. ''
                  @ ''Available modules: '' @ join '', '' available)))"

section \<open>Capabilities and the call-logging wrapper\<close>

text \<open>
  What calling \<^verbatim>\<open>tool.fn(*args, **kwargs)\<close> does: it returns a plain value, raises,
  or returns a coroutine object; \<open>Coroutine c\<close> carries what running the coroutine to
  completion gives, a raised fault or a value. \<open>Calls lp t args kwargs k\<close>: while it runs,
  the callable reaches code of the script (a method of an argument, say) that calls the
  wrapper of the capability \<open>t\<close>; the callable continues as \<open>k\<close> from what that call gives.
  A callable takes no time here: a deadline falls in the script's own code, never inside
  a call.

  The dataclass \<^verbatim>\<open>Tool\<close>: the engine reads \<open>name\<close>, \<open>description\<close> and \<open>fn\<close> only; the
  schema fields are left out.
\<close>

datatype tool_outcome =
    Returns pyval
  | Raises exc
  | Coroutine "exc + pyval"
  | Calls bool Tool "pyval list" "(string \<times> pyval) list" "exc + pyval \<Rightarrow> tool_outcome"
and Tool =
    Tool (name: string) (description: string)
         (fn: "pyval list \<Rightarrow> (string \<times> pyval) list \<Rightarrow> tool_outcome")

text \<open>\<^verbatim>\<open>asyncio.run(coro)\<close>: the coroutine's value, or the fault it raises.\<close>

definition asyncio_run :: "exc + pyval \<Rightarrow> exc + pyval" where
  "asyncio_run c = c"

text \<open>
  \<^verbatim>\<open>pool.submit(asyncio.run, coro).result()\<close> on a fresh thread pool: the same value,
  or the same fault re-raised by \<^verbatim>\<open>result()\<close>.
\<close>

definition pool_submit_result :: "exc + pyval \<Rightarrow> exc + pyval" where
  "pool_submit_result c = asyncio_run c"

text \<open>
  \<^verbatim>\<open>wrapper(*args, **kwargs)\<close> of \<^verbatim>\<open>_make_tool_wrapper(tool, call_log)\<close>, and with it
  \<open>resolve\<close>: the run of the callable up to the value that line 90 stores, a wrapper
  called on the way appending its own record first. \<open>lp\<close> is
  \<^verbatim>\<open>loop and loop.is_running()\<close> in the calling thread. The list \<^verbatim>\<open>call_log\<close> that
  the closure appends to is passed in and returned.
\<close>

primrec resolve ::
    "tool_outcome \<Rightarrow> bool \<Rightarrow> call_record list \<Rightarrow> (exc + pyval) \<times> call_record list"
  and wrapper ::
    "Tool \<Rightarrow> bool \<Rightarrow> pyval list \<Rightarrow> (string \<times> pyval) list \<Rightarrow> call_record list
       \<Rightarrow> (exc + pyval) \<times> call_record list" where
  "resolve (Returns v) lp clog = (Inr v, clog)"
| "resolve (Raises e) lp clog = (Inl e, clog)"
| "resolve (Coroutine c) lp clog =
     (if lp then pool_submit_result c else asyncio_run c, clog)"
| "resolve (Calls lp' t a kw k) lp clog =
     (case wrapper t lp' a kw clog of (r, clog') \<Rightarrow> resolve (k r) lp clog')"
| "wrapper (Tool nm d f) lp args kwargs clog =
     (case resolve (f args kwargs) lp clog of
        (Inl e, clog') \<Rightarrow> (Inl e, clog')
      | (Inr result, clog') \<Rightarrow>
          (Inr result,
           clog' @ [\<lparr>rec_name = nm, rec_args = args, rec_kwargs = kwargs,
                     rec_result = result\<rparr>]))"

section \<open>Scripts\<close>

text \<open>
  A script is represented by what it does when the interpreter runs it: a tree of the
  actions through which it meets the engine, each with the script's continuation.
  \<^item> \<open>Done x\<close>: it finishes with \<open>x\<close>; \<open>Raise e\<close>: it ends with an uncaught fault.
  \<^item> \<open>Stdout t p\<close>, \<open>Stderr t p\<close>: it writes \<open>t\<close> to \<^verbatim>\<open>sys.stdout\<close>, \<^verbatim>\<open>sys.stderr\<close>.
  \<^item> \<open>Invoke lp tool args kwargs k\<close>: it calls the wrapper of \<open>tool\<close>, an event loop
    running in its thread or not (\<open>lp\<close>); \<open>k\<close> continues from the returned value or from
    the fault raised by the call, which the script may catch.
  \<^item> \<open>Import nm level k\<close>: it calls \<^verbatim>\<open>__import__\<close>, which is \<^verbatim>\<open>_safe_import\<close>.
  \<^item> \<open>Get_Host k\<close>, \<open>Set_Host n p\<close>: it reads or changes state of the host process that
    allowlisted modules reach: the clock, the random generator, attributes of the shared
    module objects. The state is a number here.
  \<^item> \<open>Work d p h\<close>: it computes for \<open>d\<close> seconds, then continues as \<open>p\<close>; \<open>h e\<close> is how it
    continues when the fault \<open>e\<close> is injected meanwhile (\<open>Raise\<close> unless it catches).
  \<^item> \<open>Hang h\<close>: it loops forever, unless a fault is injected.
\<close>

datatype 'a prog =
    Done 'a
  | Raise exc
  | Stdout string "'a prog"
  | Stderr string "'a prog"
  | Invoke bool Tool "pyval list" "(string \<times> pyval) list" "exc + pyval \<Rightarrow> 'a prog"
  | Import string int "exc + string \<Rightarrow> 'a prog"
  | Get_Host "nat \<Rightarrow> 'a prog"
  | Set_Host nat "'a prog"
  | Work rat "'a prog" "exc \<Rightarrow> 'a prog"
  | Hang "exc \<Rightarrow> 'a prog"

text \<open>Sequencing: \<open>bind p f\<close> runs \<open>p\<close>, then \<open>f\<close> on its value; a fault of \<open>p\<close> ends both.\<close>

primrec bind :: "'a prog \<Rightarrow> ('a \<Rightarrow> 'b prog) \<Rightarrow> 'b prog" where
  "bind (Done x) f = f x"
| "bind (Raise e) f = Raise e"
| "bind (Stdout t p) f = Stdout t (bind p f)"
| "bind (Stderr t p) f = Stderr t (bind p f)"
| "bind (Invoke lp tool args kwargs k) f = Invoke lp tool args kwargs (\<lambda>r. bind (k r) f)"
| "bind (Import nm level k) f = Import nm level (\<lambda>r. bind (k r) f)"
| "bind (Get_Host k) f = Get_Host (\<lambda>n. bind (k n) f)"
| "bind (Set_Host n p) f = Set_Host n (bind p f)"
| "bind (Work d p h) f = Work d (bind p f) (\<lambda>e. bind (h e) f)"
| "bind (Hang h) f = Hang (\<lambda>e. bind (h e) f)"

text \<open>
  What a name of the restricted namespace is bound to, and the namespace: the dict
  passed to \<^verbatim>\<open>exec\<close> and \<^verbatim>\<open>eval\<close>.
\<close>

datatype binding = Value pyval | Module string | Builtins | Wrapper Tool

type_synonym namespace = "string \<Rightarrow> binding option"

text \<open>
  A top-level statement of the parsed script: \<open>Expr u e\<close> is an \<^verbatim>\<open>ast.Expr\<close> node, a
  bare expression whose value is \<open>e\<close>; \<open>Stmt u c\<close> is any other statement. Both carry
  what running them in a namespace does; it yields the namespace as the run leaves it.
  \<open>u\<close> is the fault that \<^verbatim>\<open>ast.unparse\<close> raises on the node, if it raises one (a
  \<^verbatim>\<open>RecursionError\<close> on deep nesting, a \<^verbatim>\<open>ValueError\<close> on an integer literal beyond
  the conversion limit).
\<close>

datatype node =
    Expr "exc option" "namespace \<Rightarrow> (pyval \<times> namespace) prog"
  | Stmt "exc option" "namespace \<Rightarrow> namespace prog"

text \<open>
  \<^verbatim>\<open>ast.parse(code)\<close>: a \<^verbatim>\<open>SyntaxError\<close> (or an instance of a subclass) with its
  message, another fault (a \<^verbatim>\<open>UnicodeEncodeError\<close>, a \<^verbatim>\<open>MemoryError\<close>, a
  \<^verbatim>\<open>RecursionError\<close>), or the tree's body.
\<close>

datatype parse_result = SyntaxError string | Parse_Fault exc | Module_AST "node list"

text \<open>
  The host interpreter, as far as the engine uses it: the parser, the text
  \<^verbatim>\<open>traceback.format_exc()\<close> gives for the fault being handled, the text of a float in
  an f-string, and \<^verbatim>\<open>threading.TIMEOUT_MAX\<close>.
\<close>

record Python =
  ast_parse :: "string \<Rightarrow> parse_result"
  format_exc :: "exc \<Rightarrow> string"
  float_str :: "rat \<Rightarrow> string"
  TIMEOUT_MAX :: rat

text \<open>\<^verbatim>\<open>exec(body_code, namespace)\<close>: the statements in order, in one namespace.\<close>

fun exec_body :: "node list \<Rightarrow> namespace \<Rightarrow> namespace prog" where
  "exec_body [] ns = Done ns"
| "exec_body (Stmt u c # rest) ns = bind (c ns) (exec_body rest)"
| "exec_body (Expr u e # rest) ns = bind (e ns) (\<lambda>(v, ns'). exec_body rest ns')"

section \<open>The execution supervisor\<close>

text \<open>
  What \<^verbatim>\<open>signal.getsignal(signal.SIGALRM)\<close> may hold: the two system dispositions, a
  callable of the host application (numbered), or the engine's \<^verbatim>\<open>_timeout_handler\<close>.
\<close>

datatype sighandler = SIG_DFL | SIG_IGN | Host_Handler nat | Timeout_Handler

text \<open>
  What the process-wide \<^verbatim>\<open>sys.stdout\<close> (or \<^verbatim>\<open>sys.stderr\<close>) is: the stream the
  process started with, or the \<^verbatim>\<open>StringIO\<close> buffer that the execution numbered \<open>n\<close>
  made for that stream. \<^verbatim>\<open>redirect_stdout\<close> and \<^verbatim>\<open>redirect_stderr\<close> change it for
  every thread of the process.
\<close>

datatype target = Original | Buffer_Of nat

text \<open>
  What another thread of the process does to the two streams: it writes to the current
  \<^verbatim>\<open>sys.stdout\<close> or \<^verbatim>\<open>sys.stderr\<close>, or it re-targets one of them (as a thread does that
  enters or leaves a redirection). A timeline lists such actions, each with the seconds
  that pass after the action before it (after now, for the first).
\<close>

datatype other_action =
    Writes_Stdout string
  | Writes_Stderr string
  | Sets_Stdout target
  | Sets_Stderr target

type_synonym timeline = "(rat \<times> other_action) list"

text \<open>
  The state of the host process around one execution: the three conditions that select
  the timeout strategy, the handler of \<^verbatim>\<open>SIGALRM\<close>, the seconds left on a pending
  alarm (\<open>None\<close>: no alarm is armed), the state that \<open>Get_Host\<close> and \<open>Set_Host\<close> reach, the
  two process-wide streams, what the other threads (of the host application, and the
  workers that earlier executions left running) are going to do to them, and the number
  of executions so far.
\<close>

record host =
  has_SIGALRM :: bool
  on_main_thread :: bool
  has_running_loop :: bool
  SIGALRM_handler :: sighandler
  alarm :: "rat option"
  ambient :: nat
  host_stdout :: target
  host_stderr :: target
  other_threads :: timeline
  executions :: nat

text \<open>
  The state a running script changes: the two \<^verbatim>\<open>StringIO\<close> buffers and the call log
  of this execution, the host state \<open>amb\<close>, the seconds left on the deadline (\<open>timer\<close>):
  the pending alarm under the interrupt-based strategy, the rest of
  \<^verbatim>\<open>thread.join(timeout)\<close> under the worker-based one; the number \<open>me\<close> of this
  execution, the two process-wide streams, and what the other threads are going to do.
\<close>

record vm =
  stdout_capture :: string
  stderr_capture :: string
  call_log :: "call_record list"
  amb :: nat
  timer :: "rat option"
  me :: nat
  sys_stdout :: target
  sys_stderr :: target
  others :: timeline

text \<open>
  A write to \<^verbatim>\<open>sys.stdout\<close> (or \<^verbatim>\<open>sys.stderr\<close>), by any thread: the text arrives in
  the buffer of this execution when the stream is that buffer at that moment, and
  elsewhere otherwise.
\<close>

definition write_stdout :: "string \<Rightarrow> vm \<Rightarrow> vm" where
  "write_stdout t s =
     (if sys_stdout s = Buffer_Of (me s) then s\<lparr>stdout_capture := stdout_capture s @ t\<rparr>
      else s)"

definition write_stderr :: "string \<Rightarrow> vm \<Rightarrow> vm" where
  "write_stderr t s =
     (if sys_stderr s = Buffer_Of (me s) then s\<lparr>stderr_capture := stderr_capture s @ t\<rparr>
      else s)"

fun apply_other :: "other_action \<Rightarrow> vm \<Rightarrow> vm" where
  "apply_other (Writes_Stdout t) s = write_stdout t s"
| "apply_other (Writes_Stderr t) s = write_stderr t s"
| "apply_other (Sets_Stdout g) s = s\<lparr>sys_stdout := g\<rparr>"
| "apply_other (Sets_Stderr g) s = s\<lparr>sys_stderr := g\<rparr>"

text \<open>The passing of \<open>d\<close> seconds: the other threads do what falls into them.\<close>

fun pass_time :: "rat \<Rightarrow> timeline \<Rightarrow> vm \<Rightarrow> vm" where
  "pass_time d [] s = s\<lparr>others := []\<rparr>"
| "pass_time d ((t, a) # rest) s =
     (if t \<le> d then pass_time (d - t) rest (apply_other a s)
      else s\<lparr>others := (t - d, a) # rest\<rparr>)"

definition elapse :: "rat \<Rightarrow> vm \<Rightarrow> vm" where
  "elapse d s = pass_time d (others s) s"

datatype strategy = Interrupt_Based | Worker_Based

text \<open>
  How far a script got: it finished with a value, it ended with an uncaught fault, or it
  is still running (for good under the interrupt-based strategy, at the end of the wait
  under the worker-based one), with what is left of it to run.
\<close>

datatype 'a status = Completed 'a | Raised exc | Still_Running "'a prog"

text \<open>
  Running a script. \<open>te\<close> is the fault that \<^verbatim>\<open>_timeout_handler\<close> raises. Time passes in
  \<open>Work\<close> and \<open>Hang\<close> only. When the deadline falls inside a \<open>Work\<close> or a \<open>Hang\<close>, the
  interrupt-based strategy injects \<open>te\<close> there, the alarm being spent; the worker-based
  strategy stops watching, and the state is the one the main thread then reads.
\<close>

primrec run :: "strategy \<Rightarrow> exc \<Rightarrow> 'a prog \<Rightarrow> vm \<Rightarrow> vm \<times> 'a status" where
  "run st te (Done x) s = (s, Completed x)"
| "run st te (Raise e) s = (s, Raised e)"
| "run st te (Stdout t p) s = run st te p (write_stdout t s)"
| "run st te (Stderr t p) s = run st te p (write_stderr t s)"
| "run st te (Invoke lp tool args kwargs k) s =
     run st te (k (fst (wrapper tool lp args kwargs (call_log s))))
       (s\<lparr>call_log := snd (wrapper tool lp args kwargs (call_log s))\<rparr>)"
| "run st te (Import nm level k) s = run st te (k (safe_import nm level)) s"
| "run st te (Get_Host k) s = run st te (k (amb s)) s"
| "run st te (Set_Host n p) s = run st te p (s\<lparr>amb := n\<rparr>)"
| "run st te (Work d p h) s =
     (case timer s of
        None \<Rightarrow> run st te p (elapse d s)
      | Some a \<Rightarrow>
          if a < d then
            (case st of
               Interrupt_Based \<Rightarrow> run st te (h te) ((elapse a s)\<lparr>timer := None\<rparr>)
             | Worker_Based \<Rightarrow> (elapse a s, Still_Running (Work (d - a) p h)))
          else run st te p ((elapse d s)\<lparr>timer := Some (a - d)\<rparr>))"
| "run st te (Hang h) s =
     (case timer s of
        None \<Rightarrow> (s, Still_Running (Hang h))
      | Some a \<Rightarrow>
          (case st of
             Interrupt_Based \<Rightarrow> run st te (h te) ((elapse a s)\<lparr>timer := None\<rparr>)
           | Worker_Based \<Rightarrow> (elapse a s, Still_Running (Hang h))))"

text \<open>What the call of a capability's wrapper gives, whatever the log.\<close>

definition call_result ::
  "Tool \<Rightarrow> bool \<Rightarrow> pyval list \<Rightarrow> (string \<times> pyval) list \<Rightarrow> exc + pyval" where
  "call_result tool lp args kwargs = fst (wrapper tool lp args kwargs [])"

text \<open>
  What a worker left running goes on to do to the two streams, as a timeline that
  starts \<open>d\<close> seconds before its next action: its writes, then, when the script ends, the
  two exits of the \<^verbatim>\<open>with\<close> block, which put back the streams found on entry (\<open>oe\<close>,
  then \<open>oo\<close>). Nothing interrupts it. Its reads of the host state are taken as \<open>n\<close>, the
  state when it was left; what it does to the host state later is not followed.
\<close>

primrec later_actions :: "rat \<Rightarrow> nat \<Rightarrow> target \<Rightarrow> target \<Rightarrow> 'a prog \<Rightarrow> timeline" where
  "later_actions d n oo oe (Done x) = [(d, Sets_Stderr oe), (0, Sets_Stdout oo)]"
| "later_actions d n oo oe (Raise e) = [(d, Sets_Stderr oe), (0, Sets_Stdout oo)]"
| "later_actions d n oo oe (Stdout t p) = (d, Writes_Stdout t) # later_actions 0 n oo oe p"
| "later_actions d n oo oe (Stderr t p) = (d, Writes_Stderr t) # later_actions 0 n oo oe p"
| "later_actions d n oo oe (Invoke lp tool args kwargs k) =
     later_actions d n oo oe (k (call_result tool lp args kwargs))"
| "later_actions d n oo oe (Import nm level k) =
     later_actions d n oo oe (k (safe_import nm level))"
| "later_actions d n oo oe (Get_Host k) = later_actions d n oo oe (k n)"
| "later_actions d n oo oe (Set_Host m p) = later_actions d m oo oe p"
| "later_actions d n oo oe (Work w p h) = later_actions (d + w) n oo oe p"
| "later_actions d n oo oe (Hang h) = []"

text \<open>Two timelines that start at the same moment, as one.\<close>

fun merge_timelines :: "timeline \<Rightarrow> timeline \<Rightarrow> timeline" where
  "merge_timelines [] ys = ys"
| "merge_timelines xs [] = xs"
| "merge_timelines ((t, a) # xs) ((u, b) # ys) =
     (if t \<le> u then (t, a) # merge_timelines xs ((u - t, b) # ys)
      else (u, b) # merge_timelines ((t - u, a) # xs) ys)"

text \<open>The fault of \<^verbatim>\<open>ast.unparse\<close> on a node, and on a list of statements: the first one.\<close>

fun unparse_fault :: "node \<Rightarrow> exc option" where
  "unparse_fault (Expr u e) = u"
| "unparse_fault (Stmt u c) = u"

fun first_fault :: "node list \<Rightarrow> exc option" where
  "first_fault [] = None"
| "first_fault (n # rest) =
     (case unparse_fault n of Some x \<Rightarrow> Some x | None \<Rightarrow> first_fault rest)"

text \<open>
  The split of \<^verbatim>\<open>tree.body\<close>: \<open>body_code\<close> and \<open>last_expr_code\<close>. Without a trailing
  expression \<open>body_code\<close> is the text of the whole script; with one, it is the text that
  \<^verbatim>\<open>ast.unparse\<close> makes of the statements before it, or \<^verbatim>\<open>None\<close> when there is none,
  and \<open>last_expr_code\<close> is the text \<^verbatim>\<open>ast.unparse\<close> makes of the expression. A fault of
  \<^verbatim>\<open>ast.unparse\<close> is raised here, outside any \<^verbatim>\<open>try\<close>. The texts are represented by
  the statements and the expression they stand for.
\<close>

definition split_trailing ::
  "node list
     \<Rightarrow> exc + (node list option \<times> (namespace \<Rightarrow> (pyval \<times> namespace) prog) option)" where
  "split_trailing body =
     (if body \<noteq> [] then
        (case last body of
           Expr u e \<Rightarrow>
             (case (if butlast body \<noteq> [] then first_fault (butlast body) else None) of
                Some x \<Rightarrow> Inl x
              | None \<Rightarrow>
                  (case u of
                     Some x \<Rightarrow> Inl x
                   | None \<Rightarrow>
                       Inr (if butlast body \<noteq> [] then Some (butlast body) else None,
                            Some e)))
         | Stmt u c \<Rightarrow> Inr (Some body, None))
      else Inr (Some body, None))"

text \<open>
  The two steps inside the \<^verbatim>\<open>with\<close> block of \<^verbatim>\<open>_run\<close>: \<^verbatim>\<open>exec\<close> of the body, then
  \<^verbatim>\<open>eval\<close> of the trailing expression in the namespace the body leaves. The value is
  \<open>Some v\<close> when a trailing expression gave \<open>v\<close>.
\<close>

definition script ::
  "node list option \<Rightarrow> (namespace \<Rightarrow> (pyval \<times> namespace) prog) option \<Rightarrow> namespace
     \<Rightarrow> pyval option prog" where
  "script body_code last_expr_code ns =
     bind (case body_code of Some b \<Rightarrow> exec_body b ns | None \<Rightarrow> Done ns)
       (\<lambda>ns'. case last_expr_code of
                 Some e \<Rightarrow> bind (e ns') (\<lambda>(v, ns''). Done (Some v))
               | None \<Rightarrow> Done None)"

text \<open>\<^verbatim>\<open>f"Execution timed out after {timeout} seconds"\<close>\<close>

definition timeout_message :: "Python \<Rightarrow> rat \<Rightarrow> string" where
  "timeout_message py timeout =
     ''Execution timed out after '' @ float_str py timeout @ '' seconds''"

text \<open>
  How a call of \<^verbatim>\<open>_run\<close> ends: it returns, a fault leaves it, or it has not returned;
  then the timeline is what it goes on to do to the two streams.
\<close>

datatype ending = Returned | Escaped exc | Running timeline

text \<open>The two exits of the \<^verbatim>\<open>with\<close> block: \<^verbatim>\<open>sys.stderr\<close> is put back, then \<^verbatim>\<open>sys.stdout\<close>.\<close>

definition leave_with :: "target \<Rightarrow> target \<Rightarrow> vm \<Rightarrow> vm" where
  "leave_with oo oe s = s\<lparr>sys_stderr := oe, sys_stdout := oo\<rparr>"

text \<open>
  \<^verbatim>\<open>_run\<close>: the script inside the two redirections, under the two \<^verbatim>\<open>except\<close> clauses.
  It changes the buffers, the log and the record \<open>result\<close>. In the second clause line 308
  sets \<open>success\<close>, then line 309 formats \<^verbatim>\<open>{e}\<close>: when \<^verbatim>\<open>str(e)\<close> raises, that fault
  leaves \<^verbatim>\<open>_run\<close> with \<open>error\<close> unset.
\<close>

definition run_script ::
  "Python \<Rightarrow> strategy \<Rightarrow> rat \<Rightarrow> pyval option prog \<Rightarrow> vm \<Rightarrow> ExecutionResult
     \<Rightarrow> vm \<times> ExecutionResult \<times> ending" where
  "run_script py st timeout p s result =
     (let oo = sys_stdout s;
          oe = sys_stderr s
      in case run st (Timeout_Error (timeout_message py timeout)) p
                (s\<lparr>sys_stdout := Buffer_Of (me s), sys_stderr := Buffer_Of (me s)\<rparr>) of
           (s', Completed None) \<Rightarrow> (leave_with oo oe s', result, Returned)
         | (s', Completed (Some v)) \<Rightarrow>
             (leave_with oo oe s', result\<lparr>return_value := v\<rparr>, Returned)
         | (s', Raised (Timeout_Error m)) \<Rightarrow>
             (leave_with oo oe s',
              result\<lparr>success := False, error := Some (timeout_message py timeout)\<rparr>,
              Returned)
         | (s', Raised (PyException ty msg)) \<Rightarrow>
             ((leave_with oo oe s')
                \<lparr>stderr_capture := stderr_capture s' @ format_exc py (PyException ty msg)\<rparr>,
              result\<lparr>success := False, error := Some (ty @ '': '' @ msg)\<rparr>,
              Returned)
         | (s', Raised (Unprintable ty e)) \<Rightarrow>
             (leave_with oo oe s', result\<lparr>success := False\<rparr>, Escaped e)
         | (s', Raised (PyBaseException ty msg)) \<Rightarrow>
             (leave_with oo oe s', result, Escaped (PyBaseException ty msg))
         | (s', Still_Running p') \<Rightarrow>
             (s', result, Running (later_actions 0 (amb s') oo oe p')))"

text \<open>\<^verbatim>\<open>_use_signal\<close>\<close>

definition use_signal :: "host \<Rightarrow> bool" where
  "use_signal h = (has_SIGALRM h \<and> on_main_thread h \<and> \<not> has_running_loop h)"

text \<open>
  \<^verbatim>\<open>int(timeout)\<close>: truncation towards zero. A timeout is a rational number here;
  the infinities and NaN, on which \<^verbatim>\<open>int\<close> raises, are left out.
\<close>

definition py_int :: "rat \<Rightarrow> int" where
  "py_int t = (if t < 0 then - \<lfloor>- t\<rfloor> else \<lfloor>t\<rfloor>)"

text \<open>The largest argument \<^verbatim>\<open>signal.alarm\<close> takes: that of a C \<^verbatim>\<open>int\<close>.\<close>

definition INT_MAX :: int where
  "INT_MAX = 2147483647"

text \<open>
  The namespace of one execution: the restricted builtins, the four pre-injected
  modules, then one wrapper per entry of \<open>tools\<close>, in the dict's order.
\<close>

definition build_namespace :: "(string \<times> Tool) list \<Rightarrow> namespace" where
  "build_namespace tools =
     fold (\<lambda>(nm, tool) ns. ns(nm \<mapsto> Wrapper tool)) tools
       [''__builtins__'' \<mapsto> Builtins, ''json'' \<mapsto> Module ''json'',
        ''asyncio'' \<mapsto> Module ''asyncio'', ''math'' \<mapsto> Module ''math'',
        ''re'' \<mapsto> Module ''re'']"

text \<open>
  What a call of \<^verbatim>\<open>execute_code\<close> gives its caller: a result, a fault, or nothing
  because it does not return; with the host state it leaves.
\<close>

datatype reply = Result ExecutionResult host | Propagated exc host | No_Return

text \<open>
  The three assignments before \<^verbatim>\<open>return result\<close>. The record is what the caller
  finds when \<^verbatim>\<open>execute_code\<close> returns: \<open>tool_calls\<close> is the list \<^verbatim>\<open>call_log\<close> itself,
  and what a worker left running appends to it after the return is not followed.
\<close>

definition assemble :: "vm \<Rightarrow> ExecutionResult \<Rightarrow> ExecutionResult" where
  "assemble s result =
     result\<lparr>output_text := stdout_capture s, error_output := stderr_capture s,
            tool_calls := call_log s\<rparr>"

text \<open>The state in which \<^verbatim>\<open>_run\<close> starts in the host state \<open>h\<close>, the deadline being \<open>t\<close>.\<close>

definition start_vm :: "host \<Rightarrow> rat \<Rightarrow> vm" where
  "start_vm h t =
     \<lparr>stdout_capture = [], stderr_capture = [], call_log = [], amb = ambient h,
      timer = Some t, me = executions h, sys_stdout = host_stdout h,
      sys_stderr = host_stderr h, others = other_threads h\<rparr>"

text \<open>The host state after an execution that left the state \<open>s\<close>.\<close>

definition host_after :: "host \<Rightarrow> vm \<Rightarrow> host" where
  "host_after h s =
     h\<lparr>ambient := amb s, host_stdout := sys_stdout s, host_stderr := sys_stderr s,
       other_threads := others s, executions := Suc (executions h)\<rparr>"

text \<open>
  \<^verbatim>\<open>execute_code(code, tools, timeout)\<close>, in the host state \<open>h\<close>. A fault of
  \<^verbatim>\<open>ast.parse\<close> other than a \<^verbatim>\<open>SyntaxError\<close>, and a fault of \<^verbatim>\<open>ast.unparse\<close>, reach
  the caller. Under the interrupt-based strategy the \<^verbatim>\<open>finally\<close> clause runs on every
  way out of the \<^verbatim>\<open>try\<close> block, also when \<^verbatim>\<open>signal.alarm\<close> refuses its argument.
  Under the worker-based strategy \<^verbatim>\<open>thread.join\<close> waits \<^verbatim>\<open>max(timeout, 0)\<close> seconds
  and refuses a timeout beyond \<^verbatim>\<open>threading.TIMEOUT_MAX\<close>, the worker running
  already; a worker that a fault has ended is not alive, and the record is as the worker
  left it; a worker that is alive at the end of the wait is left running.
\<close>

definition execute_code ::
  "Python \<Rightarrow> host \<Rightarrow> string \<Rightarrow> (string \<times> Tool) list \<Rightarrow> rat \<Rightarrow> reply" where
  "execute_code py h code tools timeout =
     (let namespace = build_namespace tools;
          result = ExecutionResult_default
      in case ast_parse py code of
           SyntaxError e \<Rightarrow>
             Result (result\<lparr>success := False, error := Some (''SyntaxError: '' @ e),
                            error_output := ''SyntaxError: '' @ e\<rparr>) h
         | Parse_Fault e \<Rightarrow> Propagated e h
         | Module_AST body \<Rightarrow>
            (case split_trailing body of
               Inl e \<Rightarrow> Propagated e h
             | Inr (body_code, last_expr_code) \<Rightarrow>
                 if use_signal h then
                   (let original_handler = SIGALRM_handler h;
                        h1 = h\<lparr>SIGALRM_handler := Timeout_Handler\<rparr>
                    in if INT_MAX < max 1 (py_int timeout) then
                         Propagated
                           (PyException ''OverflowError''
                              ''Python int too large to convert to C int'')
                           (h1\<lparr>alarm := None, SIGALRM_handler := original_handler\<rparr>)
                       else
                         (case run_script py Interrupt_Based timeout
                                 (script body_code last_expr_code namespace)
                                 (start_vm h1 (of_int (max 1 (py_int timeout))))
                                 result of
                            (s, result', fin) \<Rightarrow>
                              (let h2 = (host_after h1 s)
                                          \<lparr>alarm := None,
                                           SIGALRM_handler := original_handler\<rparr>
                               in case fin of
                                    Returned \<Rightarrow> Result (assemble s result') h2
                                  | Escaped e \<Rightarrow> Propagated e h2
                                  | Running acts \<Rightarrow> No_Return)))
                 else if TIMEOUT_MAX py < timeout then
                   Propagated
                     (PyException ''OverflowError''
                        ''timestamp out of range for platform time_t'')
                     (h\<lparr>other_threads :=
                          merge_timelines (other_threads h)
                            ((0, Sets_Stdout (Buffer_Of (executions h)))
                             # (0, Sets_Stderr (Buffer_Of (executions h)))
                             # later_actions 0 (ambient h) (host_stdout h) (host_stderr h)
                                 (script body_code last_expr_code namespace)),
                        executions := Suc (executions h)\<rparr>)
                 else
                   (case run_script py Worker_Based timeout
                           (script body_code last_expr_code namespace)
                           (start_vm h (max timeout 0))
                           result of
                      (s, result', fin) \<Rightarrow>
                        (case fin of
                           Running acts \<Rightarrow>
                             Result
                               (assemble s
                                  (result'\<lparr>success := False,
                                           error := Some (timeout_message py timeout)\<rparr>))
                               ((host_after h s)
                                  \<lparr>other_threads := merge_timelines (others s) acts\<rparr>)
                         | _ \<Rightarrow> Result (assemble s result') (host_after h s)))))"

section \<open>What a script does, as a list\<close>

text \<open>
  The writes and the capability invocations of a run, in the order the script makes
  them, up to its end or to the deadline. An invocation is listed twice: when the
  wrapper is called (\<open>Issued\<close>) and when the capability's callable has come back
  (\<open>Finished\<close>), with the fault it raised or the value it gave; the invocations made
  while the callable runs are listed in between.
\<close>

datatype event =
    Wrote_Stdout string
  | Wrote_Stderr string
  | Issued string "pyval list" "(string \<times> pyval) list"
  | Finished string "pyval list" "(string \<times> pyval) list" "exc + pyval"

primrec outcome_events :: "tool_outcome \<Rightarrow> bool \<Rightarrow> event list"
  and call_events :: "Tool \<Rightarrow> bool \<Rightarrow> pyval list \<Rightarrow> (string \<times> pyval) list \<Rightarrow> event list" where
  "outcome_events (Returns v) lp = []"
| "outcome_events (Raises e) lp = []"
| "outcome_events (Coroutine c) lp = []"
| "outcome_events (Calls lp' t a kw k) lp =
     call_events t lp' a kw @ outcome_events (k (call_result t lp' a kw)) lp"
| "call_events (Tool nm d f) lp args kwargs =
     Issued nm args kwargs # outcome_events (f args kwargs) lp
       @ [Finished nm args kwargs (call_result (Tool nm d f) lp args kwargs)]"

primrec events :: "strategy \<Rightarrow> exc \<Rightarrow> 'a prog \<Rightarrow> nat \<Rightarrow> rat option \<Rightarrow> event list" where
  "events st te (Done x) n tm = []"
| "events st te (Raise e) n tm = []"
| "events st te (Stdout t p) n tm = Wrote_Stdout t # events st te p n tm"
| "events st te (Stderr t p) n tm = Wrote_Stderr t # events st te p n tm"
| "events st te (Invoke lp tool args kwargs k) n tm =
     call_events tool lp args kwargs
       @ events st te (k (call_result tool lp args kwargs)) n tm"
| "events st te (Import nm level k) n tm = events st te (k (safe_import nm level)) n tm"
| "events st te (Get_Host k) n tm = events st te (k n) n tm"
| "events st te (Set_Host m p) n tm = events st te p m tm"
| "events st te (Work d p h) n tm =
     (case tm of
        None \<Rightarrow> events st te p n None
      | Some a \<Rightarrow>
          if a < d then
            (case st of
               Interrupt_Based \<Rightarrow> events st te (h te) n None
             | Worker_Based \<Rightarrow> [])
          else events st te p n (Some (a - d)))"
| "events st te (Hang h) n tm =
     (case tm of
        None \<Rightarrow> []
      | Some a \<Rightarrow>
          (case st of
             Interrupt_Based \<Rightarrow> events st te (h te) n None
           | Worker_Based \<Rightarrow> []))"

text \<open>
  The texts written to one stream; the records of the invocations that returned, in the
  order they came back; the invocations in the order they were issued.
\<close>

fun stdout_of :: "event list \<Rightarrow> string" where
  "stdout_of [] = []"
| "stdout_of (Wrote_Stdout t # es) = t @ stdout_of es"
| "stdout_of (e # es) = stdout_of es"

fun stderr_of :: "event list \<Rightarrow> string" where
  "stderr_of [] = []"
| "stderr_of (Wrote_Stderr t # es) = t @ stderr_of es"
| "stderr_of (e # es) = stderr_of es"

fun records_of :: "event list \<Rightarrow> call_record list" where
  "records_of [] = []"
| "records_of (Finished nm args kwargs (Inr v) # es) =
     \<lparr>rec_name = nm, rec_args = args, rec_kwargs = kwargs, rec_result = v\<rparr> # records_of es"
| "records_of (e # es) = records_of es"

fun issue_order :: "event list \<Rightarrow> (string \<times> pyval list \<times> (string \<times> pyval) list) list" where
  "issue_order [] = []"
| "issue_order (Issued nm args kwargs # es) = (nm, args, kwargs) # issue_order es"
| "issue_order (e # es) = issue_order es"

text \<open>
  No invocation is made while another is in progress, and none raises: every \<open>Issued\<close>
  is followed at once by its \<open>Finished\<close>, with a value.
\<close>

fun plain_calls :: "event list \<Rightarrow> bool" where
  "plain_calls [] = True"
| "plain_calls (Issued nm args kwargs # Finished nm' args' kwargs' (Inr v) # es) =
     (nm' = nm \<and> args' = args \<and> kwargs' = kwargs \<and> plain_calls es)"
| "plain_calls (Issued nm args kwargs # es) = False"
| "plain_calls (Finished nm args kwargs r # es) = False"
| "plain_calls (e # es) = plain_calls es"

text \<open>Whether the text \<open>p\<close> occurs in the text \<open>t\<close>.\<close>

fun occurs_in :: "string \<Rightarrow> string \<Rightarrow> bool" where
  "occurs_in p [] = (p = [])"
| "occurs_in p (c # cs) = (take (length p) (c # cs) = p \<or> occurs_in p cs)"

section \<open>Notions used to state the properties\<close>

text \<open>
  The strategy \<^verbatim>\<open>execute_code\<close> selects, the deadline it sets, and the state in which
  the script starts, inside the two redirections.
\<close>

definition strategy_of :: "host \<Rightarrow> strategy" where
  "strategy_of h = (if use_signal h then Interrupt_Based else Worker_Based)"

definition deadline :: "host \<Rightarrow> rat \<Rightarrow> rat" where
  "deadline h timeout =
     (if use_signal h then of_int (max 1 (py_int timeout)) else max timeout 0)"

definition entered_vm :: "host \<Rightarrow> rat \<Rightarrow> vm" where
  "entered_vm h timeout =
     (start_vm h (deadline h timeout))
       \<lparr>sys_stdout := Buffer_Of (executions h), sys_stderr := Buffer_Of (executions h)\<rparr>"

text \<open>The timeouts that \<^verbatim>\<open>signal.alarm\<close>, or \<^verbatim>\<open>thread.join\<close>, accepts.\<close>

definition accepted :: "Python \<Rightarrow> host \<Rightarrow> rat \<Rightarrow> bool" where
  "accepted py h timeout =
     (if use_signal h then max 1 (py_int timeout) \<le> INT_MAX else timeout \<le> TIMEOUT_MAX py)"

text \<open>The fault \<^verbatim>\<open>_timeout_handler\<close> raises.\<close>

definition timeout_fault :: "Python \<Rightarrow> rat \<Rightarrow> exc" where
  "timeout_fault py timeout = Timeout_Error (timeout_message py timeout)"


text \<open>
  The script that \<^verbatim>\<open>_run\<close> runs for a parsed body and a capability table (when
  \<^verbatim>\<open>ast.unparse\<close> raises, \<^verbatim>\<open>_run\<close> is not reached).
\<close>

definition the_script :: "node list \<Rightarrow> (string \<times> Tool) list \<Rightarrow> pyval option prog" where
  "the_script body tools =
     (case split_trailing body of
        Inl e \<Rightarrow> Raise e
      | Inr (body_code, last_expr_code) \<Rightarrow>
          script body_code last_expr_code (build_namespace tools))"

text \<open>No other thread is going to touch the streams, and both are this execution's.\<close>

definition quiet :: "vm \<Rightarrow> bool" where
  "quiet s =
     (others s = [] \<and> sys_stdout s = Buffer_Of (me s) \<and> sys_stderr s = Buffer_Of (me s))"

text \<open>
  How \<^verbatim>\<open>_run\<close> ended, and what \<^verbatim>\<open>execute_code\<close> gave, without the state of the host.
\<close>

fun ended :: "ending \<Rightarrow> exc option option" where
  "ended Returned = Some None"
| "ended (Escaped e) = Some (Some e)"
| "ended (Running acts) = None"

fun reply_outcome :: "reply \<Rightarrow> (exc + ExecutionResult) option" where
  "reply_outcome (Result r h) = Some (Inr r)"
| "reply_outcome (Propagated e h) = Some (Inl e)"
| "reply_outcome No_Return = None"

text \<open>
  The text that the second \<^verbatim>\<open>except\<close> clause of \<^verbatim>\<open>_run\<close> adds to the standard-error
  buffer, for the way the script ended.
\<close>

fun traceback_of :: "Python \<Rightarrow> 'a status \<Rightarrow> string" where
  "traceback_of py (Raised (PyException ty msg)) = format_exc py (PyException ty msg)"
| "traceback_of py r = []"

text \<open>What is seen of a run from outside: a value, a fault, or nothing yet.\<close>

fun seen :: "'a status \<Rightarrow> (exc + 'a) option" where
  "seen (Completed x) = Some (Inr x)"
| "seen (Raised e) = Some (Inl e)"
| "seen (Still_Running p) = None"

text \<open>
  Statements run one after the other: each one to its end, in the namespace and the
  state the one before left; a fault, or the deadline, ends the sequence.
\<close>

fun run_nodes ::
  "strategy \<Rightarrow> exc \<Rightarrow> node list \<Rightarrow> namespace \<Rightarrow> vm \<Rightarrow> vm \<times> (exc + namespace) option" where
  "run_nodes st te [] ns s = (s, Some (Inr ns))"
| "run_nodes st te (Stmt u c # rest) ns s =
     (case run st te (c ns) s of
        (s', Completed ns') \<Rightarrow> run_nodes st te rest ns' s'
      | (s', Raised e) \<Rightarrow> (s', Some (Inl e))
      | (s', Still_Running p) \<Rightarrow> (s', None))"
| "run_nodes st te (Expr u e # rest) ns s =
     (case run st te (e ns) s of
        (s', Completed (v, ns')) \<Rightarrow> run_nodes st te rest ns' s'
      | (s', Raised x) \<Rightarrow> (s', Some (Inl x))
      | (s', Still_Running p) \<Rightarrow> (s', None))"

section \<open>Example capabilities, scripts and hosts\<close>

text \<open>
  \<^verbatim>\<open>def addNumbers(a, b): return a + b\<close>. On two integers it returns their sum. On an
  instance of the class \<^verbatim>\<open>A\<close> below and an integer, \<^verbatim>\<open>a + b\<close> runs \<^verbatim>\<open>A.__add__\<close>,
  which calls \<^verbatim>\<open>addNumbers(1, 2)\<close> and returns what it gives.
\<close>

definition addNumbers_on_integers :: Tool where
  "addNumbers_on_integers =
     Tool ''addNumbers'' ''Add two numbers.''
       (\<lambda>args kwargs.
          case (args, kwargs) of
            ([PInt a, PInt b], []) \<Rightarrow> Returns (PInt (a + b))
          | _ \<Rightarrow> Raises (PyException ''TypeError'' ''bad arguments''))"

definition addNumbers :: Tool where
  "addNumbers =
     Tool ''addNumbers'' ''Add two numbers.''
       (\<lambda>args kwargs.
          case (args, kwargs) of
            ([PInt a, PInt b], []) \<Rightarrow> Returns (PInt (a + b))
          | ([PObject c, PInt b], []) \<Rightarrow>
              if c = ''A'' then
                Calls False addNumbers_on_integers [PInt 1, PInt 2] []
                  (\<lambda>r. case r of Inl e \<Rightarrow> Raises e | Inr v \<Rightarrow> Returns v)
              else Raises (PyException ''TypeError'' ''bad arguments'')
          | _ \<Rightarrow> Raises (PyException ''TypeError'' ''bad arguments''))"

text \<open>A capability that always raises.\<close>

definition failing_tool :: Tool where
  "failing_tool =
     Tool ''failing_tool'' ''Always fails.''
       (\<lambda>args kwargs. Raises (PyException ''RuntimeError'' ''tool broke''))"

text \<open>The expression \<^verbatim>\<open>f(a1, ..., an)\<close> for a global name \<open>f\<close> and constants \<open>args\<close>.\<close>

definition call_name :: "string \<Rightarrow> pyval list \<Rightarrow> namespace \<Rightarrow> (pyval \<times> namespace) prog" where
  "call_name f args ns =
     (case ns f of
        Some (Wrapper tool) \<Rightarrow>
          Invoke False tool args [] (\<lambda>r. case r of Inl e \<Rightarrow> Raise e | Inr v \<Rightarrow> Done (v, ns))
      | _ \<Rightarrow>
          Raise (PyException ''NameError''
                  (''name '' @ [CHR 0x27] @ f @ [CHR 0x27] @ '' is not defined'')))"

text \<open>The statement \<^verbatim>\<open>x = f(a1, ..., an)\<close>, and the expression \<^verbatim>\<open>f(x, b)\<close> for a variable \<open>x\<close>.\<close>

definition assign_call :: "string \<Rightarrow> string \<Rightarrow> pyval list \<Rightarrow> namespace \<Rightarrow> namespace prog" where
  "assign_call x f args ns =
     bind (call_name f args ns) (\<lambda>(v, ns'). Done (ns'(x \<mapsto> Value v)))"

definition call_with_variable ::
  "string \<Rightarrow> string \<Rightarrow> pyval \<Rightarrow> namespace \<Rightarrow> (pyval \<times> namespace) prog" where
  "call_with_variable f x b ns =
     (case ns x of
        Some (Value v) \<Rightarrow> call_name f [v, b] ns
      | _ \<Rightarrow>
          Raise (PyException ''NameError''
                  (''name '' @ [CHR 0x27] @ x @ [CHR 0x27] @ '' is not defined'')))"

text \<open>The statement \<^verbatim>\<open>import m\<close>.\<close>

definition import_module :: "string \<Rightarrow> namespace \<Rightarrow> namespace prog" where
  "import_module m ns =
     Import m 0 (\<lambda>r. case r of Inl e \<Rightarrow> Raise e | Inr l \<Rightarrow> Done (ns(m \<mapsto> Module l)))"

text \<open>The expression \<^verbatim>\<open>time.sleep(d)\<close>.\<close>

definition time_sleep :: "rat \<Rightarrow> namespace \<Rightarrow> (pyval \<times> namespace) prog" where
  "time_sleep d ns =
     (case ns ''time'' of
        Some (Module l) \<Rightarrow> Work d (Done (PNone, ns)) Raise
      | _ \<Rightarrow> Raise (PyException ''NameError'' ''name 'time' is not defined''))"

text \<open>
  The expression \<^verbatim>\<open>random.getrandbits(32)\<close>: the host state is the state of the
  generator, which the call reads and advances.
\<close>

definition random_getrandbits :: "namespace \<Rightarrow> (pyval \<times> namespace) prog" where
  "random_getrandbits ns =
     (case ns ''random'' of
        Some (Module l) \<Rightarrow> Get_Host (\<lambda>n. Set_Host (Suc n) (Done (PInt (int n), ns)))
      | _ \<Rightarrow> Raise (PyException ''NameError'' ''name 'random' is not defined''))"

text \<open>The expression \<^verbatim>\<open>print(t)\<close> for a text \<open>t\<close>, and the statement \<^verbatim>\<open>while True: pass\<close>.\<close>

definition print_text :: "string \<Rightarrow> namespace \<Rightarrow> (pyval \<times> namespace) prog" where
  "print_text t ns = Stdout (t @ [CHR 0x0A]) (Done (PNone, ns))"

definition while_true_pass :: "namespace \<Rightarrow> namespace prog" where
  "while_true_pass ns = Hang Raise"

text \<open>
  A script whose trailing expression is an integer literal of 4000 hexadecimal digits:
  it parses, and \<^verbatim>\<open>eval\<close> of the literal gives its value, but \<^verbatim>\<open>ast.unparse\<close> writes
  the value in decimal and raises \<^verbatim>\<open>ValueError\<close>, the value having more than 4300
  decimal digits.
\<close>

definition hex_literal_script :: string where
  "hex_literal_script = ''0x'' @ replicate 4000 (CHR ''f'')"

definition is_hex_literal_script :: "string \<Rightarrow> bool" where
  "is_hex_literal_script code =
     (take 2 code = ''0x'' \<and> length code = 4002 \<and> set (drop 2 code) = {CHR ''f''})"

definition hex_literal_value :: int where
  "hex_literal_value = 16 ^ 4000 - 1"

definition hex_literal :: node where
  "hex_literal =
     Expr (Some (PyException ''ValueError''
                   (''Exceeds the limit (4300 digits) for integer string conversion; ''
                    @ ''use sys.set_int_max_str_digits() to increase the limit'')))
       (\<lambda>ns. Done (PInt hex_literal_value, ns))"

text \<open>
  The text of one character, the lone surrogate U+D800 (here the three bytes of its
  encoding), for which \<^verbatim>\<open>ast.parse\<close> raises \<^verbatim>\<open>UnicodeEncodeError\<close>.
\<close>

definition surrogate_script :: string where
  "surrogate_script = [CHR 0xED, CHR 0xA0, CHR 0x80]"

text \<open>
  A script that defines a subclass of \<^verbatim>\<open>Exception\<close> whose \<^verbatim>\<open>__str__\<close> raises, and raises an
  instance of it.
\<close>

definition unprintable_script :: string where
  "unprintable_script =
     ''class E(Exception):'' @ [CHR 0x0A]
     @ ''    def __str__(self): raise ValueError('no text')'' @ [CHR 0x0A]
     @ ''raise E()''"

definition class_E :: "namespace \<Rightarrow> namespace prog" where
  "class_E ns = Done (ns(''E'' \<mapsto> Value (PObject ''type'')))"

definition raise_E :: "namespace \<Rightarrow> namespace prog" where
  "raise_E ns = Raise (Unprintable ''E'' (PyException ''ValueError'' ''no text''))"

text \<open>
  A script that defines the class \<^verbatim>\<open>A\<close>, whose \<^verbatim>\<open>__add__\<close> calls \<^verbatim>\<open>addNumbers(1, 2)\<close>, and
  ends in \<^verbatim>\<open>addNumbers(A(), 0)\<close>.
\<close>

definition nested_script :: string where
  "nested_script =
     ''class A:'' @ [CHR 0x0A]
     @ ''    def __add__(self, other): return addNumbers(1, 2)'' @ [CHR 0x0A]
     @ ''addNumbers(A(), 0)''"

definition class_A :: "namespace \<Rightarrow> namespace prog" where
  "class_A ns = Done (ns(''A'' \<mapsto> Value (PObject ''type'')))"

text \<open>
  An interpreter that parses the scripts used below, with the faults and the texts of
  CPython 3.11; of a traceback it gives the first line only.
\<close>

definition example_parse :: "string \<Rightarrow> parse_result" where
  "example_parse code =
     (if is_hex_literal_script code then Module_AST [hex_literal]
      else if code = surrogate_script then
        Parse_Fault
          (PyException ''UnicodeEncodeError''
             ([CHR 0x27] @ ''utf-8'' @ [CHR 0x27] @ '' codec can't encode character ''
              @ [CHR 0x27, CHR 0x5C] @ ''ud800'' @ [CHR 0x27]
              @ '' in position 0: surrogates not allowed''))
      else if code = unprintable_script then
        Module_AST [Stmt None class_E, Stmt None raise_E]
      else if code = nested_script then
        Module_AST [Stmt None class_A,
                    Expr None (call_name ''addNumbers'' [PObject ''A'', PInt 0])]
      else if code = ''addNumbers(3, 4)'' then
        Module_AST [Expr None (call_name ''addNumbers'' [PInt 3, PInt 4])]
      else if code = ''addNumbers(1, 2); addNumbers(3, 4)'' then
        Module_AST [Expr None (call_name ''addNumbers'' [PInt 1, PInt 2]),
                    Expr None (call_name ''addNumbers'' [PInt 3, PInt 4])]
      else if code = ''x = addNumbers(1, 2); addNumbers(x, 4)'' then
        Module_AST [Stmt None (assign_call ''x'' ''addNumbers'' [PInt 1, PInt 2]),
                    Expr None (call_with_variable ''addNumbers'' ''x'' (PInt 4))]
      else if code = ''failing_tool(1)'' then
        Module_AST [Expr None (call_name ''failing_tool'' [PInt 1])]
      else if code = ''import time; time.sleep(0.7)'' then
        Module_AST [Stmt None (import_module ''time''), Expr None (time_sleep (7 / 10))]
      else if code = ''import time; time.sleep(1.5)'' then
        Module_AST [Stmt None (import_module ''time''), Expr None (time_sleep (3 / 2))]
      else if code = ''import time; time.sleep(1); print('hello'); time.sleep(5)'' then
        Module_AST [Stmt None (import_module ''time''), Expr None (time_sleep 1),
                    Expr None (print_text ''hello''), Expr None (time_sleep 5)]
      else if code = ''import time; print('a'); time.sleep(1.5); print('b')'' then
        Module_AST [Stmt None (import_module ''time''), Expr None (print_text ''a''),
                    Expr None (time_sleep (3 / 2)), Expr None (print_text ''b'')]
      else if code = ''import random; random.getrandbits(32)'' then
        Module_AST [Stmt None (import_module ''random''), Expr None random_getrandbits]
      else if code = ''print('hello'); addNumbers(3, 4)'' @ [CHR 0x0A] @ ''while True: pass'' then
        Module_AST [Expr None (print_text ''hello''),
                    Expr None (call_name ''addNumbers'' [PInt 3, PInt 4]),
                    Stmt None while_true_pass]
      else SyntaxError ''invalid syntax'')"

definition example_python :: Python where
  "example_python =
     \<lparr>ast_parse = example_parse,
      format_exc = (\<lambda>e. ''Traceback (most recent call last):'' @ [CHR 0x0A]),
      float_str = (\<lambda>t. if t = 1 / 2 then ''0.5'' else if t = 1 then ''1.0''
                        else if t = 2 then ''2.0'' else ''30.0''),
      TIMEOUT_MAX = 9223372036\<rparr>"

text \<open>
  A host on its main thread, with \<^verbatim>\<open>SIGALRM\<close> and no event loop, and the same host inside
  a running event loop; no other thread touches the streams.
\<close>

definition main_host :: host where
  "main_host =
     \<lparr>has_SIGALRM = True, on_main_thread = True, has_running_loop = False,
      SIGALRM_handler = SIG_DFL, alarm = None, ambient = 0, host_stdout = Original,
      host_stderr = Original, other_threads = [], executions = 0\<rparr>"

definition loop_host :: host where
  "loop_host = main_host\<lparr>has_running_loop := True\<rparr>"

section \<open>Properties of the wrapper and of runs\<close>

text \<open>
  The wrapper returns what the callable gives and adds to the log the records of the
  invocations that returned during the call, in the order they came back.
\<close>
lemma records_of_append: "records_of (xs @ ys) = records_of xs @ records_of ys"
  by (induction xs rule: records_of.induct) auto

lemma resolve_log:
    "resolve out lp clog =
      (fst (resolve out lp []), clog @ records_of (outcome_events out lp))"
  and wrapper_log:
    "wrapper tool lp' a kw clog' =
      (call_result tool lp' a kw, clog' @ records_of (call_events tool lp' a kw))"
proof (induction out and tool arbitrary: lp clog and lp' a kw clog')
  case (Calls b t a' kw' k)
  have w: "wrapper t b a' kw' c = (call_result t b a' kw', c @ records_of (call_events t b a' kw'))" for c
    using Calls.IH(1) .
  have r: "resolve (k x) lp c = (fst (resolve (k x) lp []), c @ records_of (outcome_events (k x) lp))" for x c
    using Calls.IH(2) [of "k x"] by blast
  show ?case
    by (simp add: w records_of_append) (subst r, subst (2) r, simp)
next
  case (Tool nm d f)
  obtain x c0 where e: "resolve (f a kw) lp' [] = (x, c0)"
    by (cases "resolve (f a kw) lp' []")
  have r: "resolve (f a kw) lp' c = (x, c @ records_of (outcome_events (f a kw) lp'))" for c
    using Tool.IH [of "f a" "f a kw" lp' c] e by simp
  show ?case
    by (cases x) (simp_all add: call_result_def records_of_append r)
qed simp_all

lemma wrapper_parts:
  "fst (wrapper tool lp a kw clog) = call_result tool lp a kw"
  "snd (wrapper tool lp a kw clog) = clog @ records_of (call_events tool lp a kw)"
  by (simp_all add: wrapper_log)

text \<open>
  Whatever the callable does on its way: the records of the invocations it makes come
  first; its own record follows, once, when it returns, and not at all when it raises.
\<close>
lemma wrapper_nested:
  "wrapper tool lp args kwargs clog =
     (case call_result tool lp args kwargs of
        Inl e \<Rightarrow> (Inl e, clog @ records_of (outcome_events (fn tool args kwargs) lp))
      | Inr v \<Rightarrow>
          (Inr v,
           clog @ records_of (outcome_events (fn tool args kwargs) lp)
             @ [\<lparr>rec_name = name tool, rec_args = args, rec_kwargs = kwargs,
                 rec_result = v\<rparr>]))"
  by (cases tool) (simp add: wrapper_log records_of_append split: sum.splits)

lemma run_bind:
  "run st te (bind p f) s =
     (case run st te p s of
        (s', Completed x) \<Rightarrow> run st te (f x) s'
      | (s', Raised e) \<Rightarrow> (s', Raised e)
      | (s', Still_Running q) \<Rightarrow> (s', Still_Running (bind q f)))"
  by (induction p arbitrary: s) (auto split: option.splits strategy.splits)

lemma pass_time_fields:
  "call_log (pass_time d acts s) = call_log s \<and> amb (pass_time d acts s) = amb s
   \<and> timer (pass_time d acts s) = timer s \<and> me (pass_time d acts s) = me s"
proof (induction d acts s rule: pass_time.induct)
  case (2 d t a rest s)
  then show ?case
    by (cases a) (auto simp: write_stdout_def write_stderr_def)
qed simp

lemma elapse_fields [simp]:
  "call_log (elapse d s) = call_log s" "amb (elapse d s) = amb s"
  "timer (elapse d s) = timer s" "me (elapse d s) = me s"
  by (simp_all add: elapse_def pass_time_fields)

lemma write_fields [simp]:
  "call_log (write_stdout t s) = call_log s" "amb (write_stdout t s) = amb s"
  "timer (write_stdout t s) = timer s" "me (write_stdout t s) = me s"
  "call_log (write_stderr t s) = call_log s" "amb (write_stderr t s) = amb s"
  "timer (write_stderr t s) = timer s" "me (write_stderr t s) = me s"
  by (simp_all add: write_stdout_def write_stderr_def)

text \<open>The call log of a run holds the records of the run's events, whatever other threads do.\<close>
lemma run_call_log:
  "run st te p s = (s', r) \<Longrightarrow>
     call_log s' = call_log s @ records_of (events st te p (amb s) (timer s))"
proof (induction p arbitrary: s)
  case (Invoke lp tool args kwargs k)
  then show ?case
    by (fastforce simp: wrapper_parts records_of_append)
qed (fastforce split: option.splits strategy.splits if_splits)+

lemma elapse_quiet: "others s = [] \<Longrightarrow> elapse d s = s"
  by (cases s) (simp add: elapse_def)

lemma stdout_of_append: "stdout_of (xs @ ys) = stdout_of xs @ stdout_of ys"
  by (induction xs rule: stdout_of.induct) auto

lemma stderr_of_append: "stderr_of (xs @ ys) = stderr_of xs @ stderr_of ys"
  by (induction xs rule: stderr_of.induct) auto

lemma no_writes_in_outcome:
    "stdout_of (outcome_events out lp) = [] \<and> stderr_of (outcome_events out lp) = []"
  and no_writes_in_call: "stdout_of (call_events tool lp' a kw) = [] \<and> stderr_of (call_events tool lp' a kw) = []"
proof (induction out and tool arbitrary: lp and lp' a kw)
  case (Calls b t a' kw' k)
  then show ?case
    using Calls.IH(2) [of "k (call_result t b a' kw')"]
    by (simp add: stdout_of_append stderr_of_append)
next
  case (Tool nm d f)
  then show ?case
    using Tool.IH [of "f a" "f a kw"]
    by (simp add: stdout_of_append stderr_of_append)
qed simp_all

text \<open>
  When no other thread touches the streams, the two buffers hold the texts of the run's
  events.
\<close>
lemma run_quiet:
  "quiet s \<Longrightarrow> run st te p s = (s', r) \<Longrightarrow>
     stdout_capture s' = stdout_capture s @ stdout_of (events st te p (amb s) (timer s))
     \<and> stderr_capture s' = stderr_capture s @ stderr_of (events st te p (amb s) (timer s))
     \<and> quiet s' \<and> me s' = me s"
proof (induction p arbitrary: s)
  case (Invoke lp tool args kwargs k)
  have q: "quiet (s\<lparr>call_log := c\<rparr>)" for c
    using Invoke.prems(1) by (simp add: quiet_def)
  from Invoke.prems(2)
  have "run st te (k (call_result tool lp args kwargs))
          (s\<lparr>call_log := call_log s @ records_of (call_events tool lp args kwargs)\<rparr>)
        = (s', r)"
    by (simp add: wrapper_parts)
  from Invoke.IH [OF rangeI q this] show ?case
    by (simp add: stdout_of_append stderr_of_append no_writes_in_call)
next
  case (Stdout t p)
  have "quiet (write_stdout t s)" using Stdout.prems(1) by (simp add: quiet_def write_stdout_def)
  from Stdout.IH [OF this] Stdout.prems show ?case
    by (fastforce simp: quiet_def write_stdout_def)
next
  case (Stderr t p)
  have "quiet (write_stderr t s)" using Stderr.prems(1) by (simp add: quiet_def write_stderr_def)
  from Stderr.IH [OF this] Stderr.prems show ?case
    by (fastforce simp: quiet_def write_stderr_def)
next
  case (Work d p h)
  have e: "elapse x s = s" for x using Work.prems(1) by (simp add: quiet_def elapse_quiet)
  have q: "quiet (s\<lparr>timer := t\<rparr>)" for t using Work.prems(1) by (simp add: quiet_def)
  show ?case
  proof (cases "timer s")
    case None
    then show ?thesis using Work.IH(1) [OF Work.prems(1)] Work.prems by (simp add: e)
  next
    case (Some a)
    show ?thesis
    proof (cases "a < d")
      case True
      show ?thesis
      proof (cases st)
        case Interrupt_Based
        then show ?thesis
          using Work.IH(2) [OF rangeI q [of None]] Work.prems Some True by (simp add: e)
      next
        case Worker_Based
        then show ?thesis using Work.prems Some True by (auto simp: e)
      qed
    next
      case False
      then show ?thesis
        using Work.IH(1) [OF q [of "Some (a - d)"]] Work.prems Some by (simp add: e)
    qed
  qed
next
  case (Hang h)
  have e: "elapse x s = s" for x using Hang.prems(1) by (simp add: quiet_def elapse_quiet)
  have q: "quiet (s\<lparr>timer := t\<rparr>)" for t using Hang.prems(1) by (simp add: quiet_def)
  show ?case
  proof (cases "timer s")
    case None
    then show ?thesis using Hang.prems by auto
  next
    case (Some a)
    show ?thesis
    proof (cases st)
      case Interrupt_Based
      then show ?thesis
        using Hang.IH [OF rangeI q [of None]] Hang.prems Some by (simp add: e)
    next
      case Worker_Based
      then show ?thesis using Hang.prems Some by (auto simp: e)
    qed
  qed
next
  case (Set_Host n p)
  have "quiet (s\<lparr>amb := n\<rparr>)" using Set_Host.prems(1) by (simp add: quiet_def)
  from Set_Host.IH [OF this] Set_Host.prems show ?case by fastforce
qed (fastforce simp: quiet_def)+

text \<open>\<^verbatim>\<open>exec\<close> of a body runs its statements one after the other.\<close>
lemma exec_body_in_order:
  "map_prod id seen (run st te (exec_body stmts ns) s) = run_nodes st te stmts ns s"
proof (induction stmts arbitrary: ns s)
  case Nil
  show ?case by simp
next
  case (Cons n rest)
  show ?case
  proof (cases n)
    case (Expr u e)
    then show ?thesis
      using Cons.IH
      by (auto simp: run_bind split: prod.splits status.splits)
  next
    case (Stmt u c)
    then show ?thesis
      using Cons.IH
      by (auto simp: run_bind split: prod.splits status.splits)
  qed
qed

lemma issue_order_plain:
  "plain_calls es \<Longrightarrow>
     map (\<lambda>c. (rec_name c, rec_args c, rec_kwargs c)) (records_of es) = issue_order es"
  by (induction es rule: plain_calls.induct) auto

lemma length_issue_order_plain:
  "plain_calls es \<Longrightarrow> length (records_of es) = length (issue_order es)"
  by (induction es rule: plain_calls.induct) auto

section \<open>Properties of the execution supervisor\<close>

text \<open>
  \<^verbatim>\<open>execute_code\<close> on a script that parses, is split without a fault and comes with a
  timeout that is accepted: the run of the script inside \<^verbatim>\<open>_run\<close>, then the result.
\<close>

lemma execute_code_parsed:
  assumes "ast_parse py code = Module_AST body"
    and "split_trailing body = Inr (bc, le)"
    and "accepted py h timeout"
  shows "execute_code py h code tools timeout =
     (case run_script py (strategy_of h) timeout (the_script body tools)
             (start_vm h (deadline h timeout)) ExecutionResult_default of
        (s, r', fin) \<Rightarrow>
          if use_signal h then
            (case fin of
               Returned \<Rightarrow> Result (assemble s r') ((host_after h s)\<lparr>alarm := None\<rparr>)
             | Escaped e \<Rightarrow> Propagated e ((host_after h s)\<lparr>alarm := None\<rparr>)
             | Running acts \<Rightarrow> No_Return)
          else
            (case fin of
               Running acts \<Rightarrow>
                 Result (assemble s (r'\<lparr>success := False,
                                         error := Some (timeout_message py timeout)\<rparr>))
                   ((host_after h s)\<lparr>other_threads := merge_timelines (others s) acts\<rparr>)
             | _ \<Rightarrow> Result (assemble s r') (host_after h s)))"
proof (cases "use_signal h")
  case True
  with assms(3) have "\<not> INT_MAX < max 1 (py_int timeout)"
    by (simp add: accepted_def not_less del: max.bounded_iff)
  with True assms(1,2) show ?thesis
    by (simp add: execute_code_def Let_def the_script_def strategy_of_def deadline_def
        start_vm_def host_after_def split: prod.splits ending.splits)
next
  case False
  with assms(3) have "\<not> TIMEOUT_MAX py < timeout"
    by (simp add: accepted_def)
  with False assms(1,2) show ?thesis
    by (simp add: execute_code_def Let_def the_script_def strategy_of_def deadline_def
        start_vm_def host_after_def split: prod.splits ending.splits)
qed

lemma execute_code_result:
  assumes parse: "ast_parse py code = Module_AST body"
    and res: "execute_code py h code tools timeout = Result r h'"
  shows "\<exists>bc le. split_trailing body = Inr (bc, le)" and "accepted py h timeout"
  using assms
  by (auto simp: execute_code_def Let_def accepted_def split: sum.splits if_splits)

lemma run_script_unfold:
  "run_script py st timeout p s result =
     (case run st (timeout_fault py timeout) p
                (s\<lparr>sys_stdout := Buffer_Of (me s), sys_stderr := Buffer_Of (me s)\<rparr>) of
           (s', Completed None) \<Rightarrow> (leave_with (sys_stdout s) (sys_stderr s) s', result, Returned)
         | (s', Completed (Some v)) \<Rightarrow>
             (leave_with (sys_stdout s) (sys_stderr s) s', result\<lparr>return_value := v\<rparr>, Returned)
         | (s', Raised (Timeout_Error m)) \<Rightarrow>
             (leave_with (sys_stdout s) (sys_stderr s) s',
              result\<lparr>success := False, error := Some (timeout_message py timeout)\<rparr>,
              Returned)
         | (s', Raised (PyException ty msg)) \<Rightarrow>
             ((leave_with (sys_stdout s) (sys_stderr s) s')
                \<lparr>stderr_capture := stderr_capture s' @ format_exc py (PyException ty msg)\<rparr>,
              result\<lparr>success := False, error := Some (ty @ '': '' @ msg)\<rparr>,
              Returned)
         | (s', Raised (Unprintable ty e)) \<Rightarrow>
             (leave_with (sys_stdout s) (sys_stderr s) s', result\<lparr>success := False\<rparr>, Escaped e)
         | (s', Raised (PyBaseException ty msg)) \<Rightarrow>
             (leave_with (sys_stdout s) (sys_stderr s) s', result, Escaped (PyBaseException ty msg))
         | (s', Still_Running p') \<Rightarrow>
             (s', result, Running (later_actions 0 (amb s') (sys_stdout s) (sys_stderr s) p')))"
  unfolding run_script_def timeout_fault_def Let_def ..

lemma entered_vm_eq:
  "(start_vm h (deadline h timeout))
     \<lparr>sys_stdout := Buffer_Of (me (start_vm h (deadline h timeout))),
      sys_stderr := Buffer_Of (me (start_vm h (deadline h timeout)))\<rparr> = entered_vm h timeout"
  by (simp add: entered_vm_def start_vm_def)

lemma run_script_parts:
  assumes rs: "run_script py st timeout p s0 res = (s, r', fin)"
    and rn: "run st (timeout_fault py timeout) p
               (s0\<lparr>sys_stdout := Buffer_Of (me s0), sys_stderr := Buffer_Of (me s0)\<rparr>) = (s', out)"
  shows "call_log s = call_log s'"
    and "stdout_capture s = stdout_capture s'"
    and "stderr_capture s = stderr_capture s' @ traceback_of py out"
    and "(ended fin = None) = (seen out = None)"
  using rs unfolding run_script_unfold rn
  by (auto simp: leave_with_def split: status.splits option.splits exc.splits)

lemma entered_vm_fields [simp]:
  "stdout_capture (entered_vm h t) = []" "stderr_capture (entered_vm h t) = []"
  "call_log (entered_vm h t) = []" "amb (entered_vm h t) = ambient h"
  "timer (entered_vm h t) = Some (deadline h t)" "me (entered_vm h t) = executions h"
  "others (entered_vm h t) = other_threads h"
  by (simp_all add: entered_vm_def start_vm_def)

lemma quiet_entered_vm: "other_threads h = [] \<Longrightarrow> quiet (entered_vm h t)"
  by (simp add: quiet_def entered_vm_def start_vm_def)

text \<open>What a returned result holds, in terms of the run of the script.\<close>
lemma execute_code_trace:
  assumes parse: "ast_parse py code = Module_AST body"
    and res: "execute_code py h code tools timeout = Result r h'"
    and rn: "run (strategy_of h) (timeout_fault py timeout) (the_script body tools)
               (entered_vm h timeout) = (s', out)"
  shows "tool_calls r =
           records_of (events (strategy_of h) (timeout_fault py timeout) (the_script body tools)
                         (ambient h) (Some (deadline h timeout)))"
    and "output_text r = stdout_capture s'"
    and "error_output r = stderr_capture s' @ traceback_of py out"
proof -
  obtain bc le where sp: "split_trailing body = Inr (bc, le)"
    using execute_code_result(1) [OF parse res] by blast
  have acc: "accepted py h timeout"
    using execute_code_result(2) [OF parse res] .
  obtain s r' fin where rs: "run_script py (strategy_of h) timeout (the_script body tools)
             (start_vm h (deadline h timeout)) ExecutionResult_default = (s, r', fin)"
    by (rule prod_cases3)
  have rn': "run (strategy_of h) (timeout_fault py timeout) (the_script body tools)
      ((start_vm h (deadline h timeout))
         \<lparr>sys_stdout := Buffer_Of (me (start_vm h (deadline h timeout))),
          sys_stderr := Buffer_Of (me (start_vm h (deadline h timeout)))\<rparr>) = (s', out)"
    unfolding entered_vm_eq using rn .
  note parts = run_script_parts [OF rs rn']
  have r: "tool_calls r = call_log s \<and> output_text r = stdout_capture s
            \<and> error_output r = stderr_capture s"
    using res unfolding execute_code_parsed [OF parse sp acc] rs
    by (auto simp: assemble_def split: if_splits ending.splits)
  from run_call_log [OF rn]
  show "tool_calls r =
           records_of (events (strategy_of h) (timeout_fault py timeout) (the_script body tools)
                         (ambient h) (Some (deadline h timeout)))"
    using r parts(1) by simp
  show "output_text r = stdout_capture s'" using r parts(2) by simp
  show "error_output r = stderr_capture s' @ traceback_of py out" using r parts(3) by simp
qed

lemma execute_code_quiet_trace:
  assumes parse: "ast_parse py code = Module_AST body"
    and res: "execute_code py h code tools timeout = Result r h'"
    and q: "other_threads h = []"
  shows "output_text r =
           stdout_of (events (strategy_of h) (timeout_fault py timeout) (the_script body tools)
                        (ambient h) (Some (deadline h timeout)))"
    and "error_output r =
           stderr_of (events (strategy_of h) (timeout_fault py timeout) (the_script body tools)
                        (ambient h) (Some (deadline h timeout)))
           @ traceback_of py (snd (run (strategy_of h) (timeout_fault py timeout)
                                     (the_script body tools) (entered_vm h timeout)))"
proof -
  obtain s' out where rn: "run (strategy_of h) (timeout_fault py timeout) (the_script body tools)
               (entered_vm h timeout) = (s', out)"
    by (cases "run (strategy_of h) (timeout_fault py timeout) (the_script body tools)
               (entered_vm h timeout)")
  from run_quiet [OF quiet_entered_vm [OF q] rn]
  have c: "stdout_capture s' =
             stdout_of (events (strategy_of h) (timeout_fault py timeout) (the_script body tools)
                          (ambient h) (Some (deadline h timeout)))"
          "stderr_capture s' =
             stderr_of (events (strategy_of h) (timeout_fault py timeout) (the_script body tools)
                          (ambient h) (Some (deadline h timeout)))"
    by simp_all
  show "output_text r =
           stdout_of (events (strategy_of h) (timeout_fault py timeout) (the_script body tools)
                        (ambient h) (Some (deadline h timeout)))"
    using execute_code_trace(2) [OF parse res rn] c by simp
  show "error_output r =
           stderr_of (events (strategy_of h) (timeout_fault py timeout) (the_script body tools)
                        (ambient h) (Some (deadline h timeout)))
           @ traceback_of py (snd (run (strategy_of h) (timeout_fault py timeout)
                                     (the_script body tools) (entered_vm h timeout)))"
    using execute_code_trace(3) [OF parse res rn] c rn by simp
qed





lemma use_signal_after:
  "execute_code py h code tools timeout = Result r h1 \<Longrightarrow> use_signal h1 = use_signal h"
  by (cases "ast_parse py code")
    (auto simp: execute_code_def Let_def use_signal_def host_after_def
      split: prod.splits ending.splits if_splits sum.splits)

text \<open>
  A \<^verbatim>\<open>SyntaxError\<close> of the parser gives a failed result at once, the host untouched.
\<close>
lemma syntax_error_result:
  "ast_parse py code = SyntaxError e \<Longrightarrow>
     execute_code py h code tools timeout =
       Result \<lparr>output_text = [], error_output = ''SyntaxError: '' @ e, return_value = PNone,
               tool_calls = [], success = False, error = Some (''SyntaxError: '' @ e)\<rparr> h"
  by (simp add: execute_code_def ExecutionResult_default_def)

text \<open>
  Under the interrupt-based strategy every way out of the \<^verbatim>\<open>try\<close> block leaves no alarm
  pending and the handler that was there before.
\<close>
lemma alarm_disarmed_handler_restored:
  assumes "use_signal h"
    and "ast_parse py code = Module_AST body"
    and "split_trailing body = Inr x"
    and "execute_code py h code tools timeout = Result r h'
         \<or> execute_code py h code tools timeout = Propagated e h'"
  shows "alarm h' = None \<and> SIGALRM_handler h' = SIGALRM_handler h"
  using assms
  by (auto simp: execute_code_def Let_def host_after_def
      split: prod.splits ending.splits if_splits)

text \<open>
  Under the worker-based strategy a script still running at the end of the wait gives a
  failed result with the timeout message.
\<close>
lemma worker_timeout_result:
  assumes parse: "ast_parse py code = Module_AST body"
    and worker: "\<not> use_signal h"
    and acc: "timeout \<le> TIMEOUT_MAX py"
    and late: "seen (snd (run Worker_Based (timeout_fault py timeout) (the_script body tools)
                            (entered_vm h timeout))) = None"
  shows "\<exists>r h'. execute_code py h code tools timeout = Result r h'
           \<and> success r = False \<and> error r = Some (timeout_message py timeout)"
proof -
  have st: "strategy_of h = Worker_Based" using worker by (simp add: strategy_of_def)
  have a: "accepted py h timeout" using worker acc by (simp add: accepted_def)
  obtain s' out where rn: "run Worker_Based (timeout_fault py timeout) (the_script body tools)
               (entered_vm h timeout) = (s', out)"
    by (cases "run Worker_Based (timeout_fault py timeout) (the_script body tools)
               (entered_vm h timeout)")
  with late have out: "seen out = None" by simp
  have "\<exists>bc le. split_trailing body = Inr (bc, le)"
  proof (cases "split_trailing body")
    case (Inl e)
    then have "the_script body tools = Raise e" by (simp add: the_script_def)
    with rn out show ?thesis by auto
  next
    case (Inr pr)
    then show ?thesis by (cases pr) simp
  qed
  then obtain bc le where sp: "split_trailing body = Inr (bc, le)" by blast
  obtain s r' fin where rs: "run_script py Worker_Based timeout (the_script body tools)
             (start_vm h (deadline h timeout)) ExecutionResult_default = (s, r', fin)"
    by (rule prod_cases3)
  have rn': "run Worker_Based (timeout_fault py timeout) (the_script body tools)
      ((start_vm h (deadline h timeout))
         \<lparr>sys_stdout := Buffer_Of (me (start_vm h (deadline h timeout))),
          sys_stderr := Buffer_Of (me (start_vm h (deadline h timeout)))\<rparr>) = (s', out)"
    unfolding entered_vm_eq using rn .
  from run_script_parts(4) [OF rs rn'] out have "ended fin = None" by simp
  then obtain acts where fin: "fin = Running acts" by (cases fin) simp_all
  show ?thesis
    unfolding execute_code_parsed [OF parse sp a] st rs fin
    using worker by (simp add: assemble_def)
qed

text \<open>
  In a returned result \<open>success\<close> is false exactly when \<open>error\<close> is present, unless the
  script ended with a fault whose \<^verbatim>\<open>__str__\<close> raises.
\<close>
lemma success_iff_error_unless_unprintable:
  assumes res: "execute_code py h code tools timeout = Result r h'"
    and pr: "\<forall>body ty e. ast_parse py code = Module_AST body \<longrightarrow>
               snd (run (strategy_of h) (timeout_fault py timeout) (the_script body tools)
                      (entered_vm h timeout)) \<noteq> Raised (Unprintable ty e)"
  shows "(\<not> success r) = (error r \<noteq> None)"
proof (cases "ast_parse py code")
  case (SyntaxError e)
  then show ?thesis using res by (auto simp: execute_code_def ExecutionResult_default_def)
next
  case (Parse_Fault e)
  then show ?thesis using res by (simp add: execute_code_def)
next
  case (Module_AST body)
  obtain bc le where sp: "split_trailing body = Inr (bc, le)"
    using execute_code_result(1) [OF Module_AST res] by blast
  have acc: "accepted py h timeout"
    using execute_code_result(2) [OF Module_AST res] .
  obtain s' out where rn: "run (strategy_of h) (timeout_fault py timeout) (the_script body tools)
               (entered_vm h timeout) = (s', out)"
    by (cases "run (strategy_of h) (timeout_fault py timeout) (the_script body tools)
               (entered_vm h timeout)")
  have np: "out \<noteq> Raised (Unprintable ty e)" for ty e
    using pr Module_AST rn by auto
  show ?thesis
    using res np
    unfolding execute_code_parsed [OF Module_AST sp acc] run_script_unfold entered_vm_eq rn
    by (auto simp: assemble_def ExecutionResult_default_def
        split: status.splits option.splits exc.splits if_splits)
qed

text \<open>
  When \<^verbatim>\<open>ast.unparse\<close> raises on none of its nodes, a script that ends in a bare
  expression has its other statements run first, one after the other, and the
  expression evaluated in the namespace and the state they leave; that value is the
  trailing value of the result.
\<close>
lemma split_trailing_expr:
  "first_fault stmts = None \<Longrightarrow>
     split_trailing (stmts @ [Expr None e]) =
       Inr (if stmts \<noteq> [] then Some stmts else None, Some e)"
  by (simp add: split_trailing_def)

lemma trailing_value_after_body:
  assumes parse: "ast_parse py code = Module_AST (stmts @ [Expr None e])"
    and unparse: "first_fault stmts = None"
    and acc: "accepted py h timeout"
    and body: "run_nodes (strategy_of h) (timeout_fault py timeout) stmts
                 (build_namespace tools) (entered_vm h timeout) = (s1, Some (Inr ns1))"
    and val: "run (strategy_of h) (timeout_fault py timeout) (e ns1) s1 =
                (s2, Completed (v, ns2))"
  shows "\<exists>h'. execute_code py h code tools timeout =
           Result \<lparr>output_text = stdout_capture s2, error_output = stderr_capture s2,
                   return_value = v, tool_calls = call_log s2, success = True,
                   error = None\<rparr> h'"
proof -
  let ?st = "strategy_of h" and ?te = "timeout_fault py timeout"
  note sp = split_trailing_expr [OF unparse, of e]
  have b: "run ?st ?te (exec_body stmts (build_namespace tools)) (entered_vm h timeout) =
             (s1, Completed ns1)"
  proof -
    obtain s r where x: "run ?st ?te (exec_body stmts (build_namespace tools))
        (entered_vm h timeout) = (s, r)"
      by (cases "run ?st ?te (exec_body stmts (build_namespace tools)) (entered_vm h timeout)")
    from exec_body_in_order [of ?st ?te stmts "build_namespace tools" "entered_vm h timeout"]
    have "(s, seen r) = (s1, Some (Inr ns1))" unfolding x body by simp
    then show ?thesis unfolding x by (cases r) simp_all
  qed
  have ts: "the_script (stmts @ [Expr None e]) tools =
              script (if stmts \<noteq> [] then Some stmts else None) (Some e) (build_namespace tools)"
    by (simp add: the_script_def sp)
  have r: "run ?st ?te (the_script (stmts @ [Expr None e]) tools) (entered_vm h timeout) =
             (s2, Completed (Some v))"
  proof (cases "stmts = []")
    case True
    with body have "s1 = entered_vm h timeout" "ns1 = build_namespace tools" by simp_all
    with val True show ?thesis
      unfolding ts by (simp add: script_def run_bind)
  next
    case False
    with b val show ?thesis
      unfolding ts by (simp add: script_def run_bind)
  qed
  show ?thesis
    unfolding execute_code_parsed [OF parse sp acc] run_script_unfold entered_vm_eq r
    by (simp add: assemble_def leave_with_def ExecutionResult_default_def)
qed

section \<open>The examples, evaluated\<close>

lemmas example_defs =
  example_python_def example_parse_def split_trailing_def script_def build_namespace_def
  call_name_def assign_call_def call_with_variable_def import_module_def time_sleep_def
  random_getrandbits_def print_text_def while_true_pass_def class_E_def raise_E_def
  class_A_def addNumbers_def addNumbers_on_integers_def failing_tool_def main_host_def
  loop_host_def use_signal_def py_int_def INT_MAX_def timeout_message_def timeout_fault_def
  strategy_of_def deadline_def start_vm_def entered_vm_def host_after_def leave_with_def
  the_script_def run_script_def assemble_def ExecutionResult_default_def safe_import_def
  SAFE_MODULES_def SAFE_MODULES_list_def write_stdout_def write_stderr_def elapse_def
  call_result_def is_hex_literal_script_def unprintable_script_def nested_script_def
  surrogate_script_def accepted_def

lemmas parse_defs =
  example_python_def example_parse_def is_hex_literal_script_def surrogate_script_def
  unprintable_script_def nested_script_def

lemma is_hex: "is_hex_literal_script hex_literal_script"
  by (simp add: is_hex_literal_script_def hex_literal_script_def)

lemma addNumbers_scenario:
  "execute_code example_python main_host ''addNumbers(3, 4)'' [(''addNumbers'', addNumbers)] 30 =
     Result \<lparr>output_text = [], error_output = [], return_value = PInt 7,
             tool_calls = [\<lparr>rec_name = ''addNumbers'', rec_args = [PInt 3, PInt 4],
                             rec_kwargs = [], rec_result = PInt 7\<rparr>],
             success = True, error = None\<rparr>
       (main_host\<lparr>executions := 1\<rparr>)"
  by (simp add: execute_code_def example_defs Let_def)

lemma two_calls_parse:
  "ast_parse example_python ''x = addNumbers(1, 2); addNumbers(x, 4)'' =
     Module_AST [Stmt None (assign_call ''x'' ''addNumbers'' [PInt 1, PInt 2]),
                 Expr None (call_with_variable ''addNumbers'' ''x'' (PInt 4))]"
  by (simp add: example_python_def example_parse_def is_hex_literal_script_def
      surrogate_script_def unprintable_script_def nested_script_def)

lemma two_calls_result:
  "execute_code example_python main_host ''x = addNumbers(1, 2); addNumbers(x, 4)''
     [(''addNumbers'', addNumbers)] 30 =
   Result \<lparr>output_text = [], error_output = [], return_value = PInt 7,
           tool_calls = [\<lparr>rec_name = ''addNumbers'', rec_args = [PInt 1, PInt 2],
                           rec_kwargs = [], rec_result = PInt 3\<rparr>,
                         \<lparr>rec_name = ''addNumbers'', rec_args = [PInt 3, PInt 4],
                           rec_kwargs = [], rec_result = PInt 7\<rparr>],
           success = True, error = None\<rparr>
     (main_host\<lparr>executions := 1\<rparr>)"
  by (simp add: execute_code_def example_defs)

lemma two_calls_events:
  "events Interrupt_Based te
     (the_script [Stmt None (assign_call ''x'' ''addNumbers'' [PInt 1, PInt 2]),
                  Expr None (call_with_variable ''addNumbers'' ''x'' (PInt 4))]
        [(''addNumbers'', addNumbers)]) n tm =
   [Issued ''addNumbers'' [PInt 1, PInt 2] [],
    Finished ''addNumbers'' [PInt 1, PInt 2] [] (Inr (PInt 3)),
    Issued ''addNumbers'' [PInt 3, PInt 4] [],
    Finished ''addNumbers'' [PInt 3, PInt 4] [] (Inr (PInt 7))]"
  by (simp add: example_defs)

lemma hang_parse:
  "ast_parse example_python
     (''print('hello'); addNumbers(3, 4)'' @ [CHR 0x0A] @ ''while True: pass'') =
   Module_AST [Expr None (print_text ''hello''),
               Expr None (call_name ''addNumbers'' [PInt 3, PInt 4]),
               Stmt None while_true_pass]"
  by (simp add: parse_defs)

lemma hang_events:
  "events Worker_Based te
     (the_script [Expr None (print_text ''hello''),
                  Expr None (call_name ''addNumbers'' [PInt 3, PInt 4]),
                  Stmt None while_true_pass] [(''addNumbers'', addNumbers)]) n (Some 1) =
   [Wrote_Stdout (''hello'' @ [CHR 0x0A]),
    Issued ''addNumbers'' [PInt 3, PInt 4] [],
    Finished ''addNumbers'' [PInt 3, PInt 4] [] (Inr (PInt 7))]"
  by (simp add: example_defs)

lemma hang_still_running:
  "seen (snd (run Worker_Based te
     (the_script [Expr None (print_text ''hello''),
                  Expr None (call_name ''addNumbers'' [PInt 3, PInt 4]),
                  Stmt None while_true_pass] [(''addNumbers'', addNumbers)])
     (entered_vm loop_host 1))) = None"
  by (simp add: example_defs)

lemma hang_result:
  "execute_code example_python loop_host
     (''print('hello'); addNumbers(3, 4)'' @ [CHR 0x0A] @ ''while True: pass'')
     [(''addNumbers'', addNumbers)] 1 =
   Result \<lparr>output_text = ''hello'' @ [CHR 0x0A], error_output = [], return_value = PNone,
           tool_calls = [\<lparr>rec_name = ''addNumbers'', rec_args = [PInt 3, PInt 4],
                           rec_kwargs = [], rec_result = PInt 7\<rparr>],
           success = False, error = Some ''Execution timed out after 1.0 seconds''\<rparr>
     (loop_host\<lparr>host_stdout := Buffer_Of 0, host_stderr := Buffer_Of 0, executions := 1\<rparr>)"
  by (simp add: execute_code_def example_defs Let_def)


section \<open>Properties of the import guard\<close>

lemma parents_eq: "SAFE_PARENT_PACKAGES = {''urllib'', ''concurrent''}"
  by (simp add: SAFE_PARENT_PACKAGES_def SAFE_MODULES_list_def first_component_def insert_commute)

lemma one_dot:
  assumes a: "CHR ''.'' \<notin> set a" and b: "CHR ''.'' \<notin> set b"
  shows "(a @ CHR ''.'' # b = nm @ CHR ''.'' # rest) = (nm = a \<and> rest = b)"
proof
  assume eq: "a @ CHR ''.'' # b = nm @ CHR ''.'' # rest"
  let ?d = "\<lambda>c. c = CHR ''.''"
  have fa: "filter ?d a = []" and fb: "filter ?d b = []"
    using a b by (auto simp: filter_empty_conv)
  have "filter ?d (nm @ CHR ''.'' # rest) = filter ?d (a @ CHR ''.'' # b)"
    using eq by simp
  then have "filter ?d nm @ CHR ''.'' # filter ?d rest = [CHR ''.'']"
    by (simp add: fa fb)
  then have "filter ?d nm = []"
    by (simp add: append_eq_Cons_conv)
  then have nm: "CHR ''.'' \<notin> set nm"
    by (auto simp: filter_empty_conv)
  have "takeWhile (\<lambda>c. c \<noteq> CHR ''.'') (a @ CHR ''.'' # b) = a"
    using a by (subst takeWhile_append2) auto
  moreover have "takeWhile (\<lambda>c. c \<noteq> CHR ''.'') (nm @ CHR ''.'' # rest) = nm"
    using nm by (subst takeWhile_append2) auto
  ultimately have "a = nm" using eq by simp
  then show "nm = a \<and> rest = b" using eq by simp
next
  assume "nm = a \<and> rest = b"
  then show "a @ CHR ''.'' # b = nm @ CHR ''.'' # rest" by simp
qed

lemma no_dot: "CHR ''.'' \<notin> set m \<Longrightarrow> (m = nm @ CHR ''.'' # rest) = False"
  by auto

lemma parent_spec:
  "(\<exists>m\<in>SAFE_MODULES. \<exists>rest. m = nm @ ''.'' @ rest) = (nm \<in> SAFE_PARENT_PACKAGES)"
proof -
  have u: "(''urllib.parse'' = nm @ CHR ''.'' # rest) = (nm = ''urllib'' \<and> rest = ''parse'')" for rest
    using one_dot [of "''urllib''" "''parse''" nm rest] by simp
  have c: "(''concurrent.futures'' = nm @ CHR ''.'' # rest) = (nm = ''concurrent'' \<and> rest = ''futures'')" for rest
    using one_dot [of "''concurrent''" "''futures''" nm rest] by simp
  show ?thesis
    unfolding parents_eq SAFE_MODULES_def SAFE_MODULES_list_def
    by (simp add: u c no_dot)
qed

lemma join_available:
  "join '', '' available =
     ''abc, asyncio, base64, bisect, calendar, collections, concurrent.futures, copy, dataclasses, datetime, decimal, enum, fractions, functools, hashlib, heapq, io, itertools, json, math, operator, pprint, random, re, statistics, string, textwrap, time, types, typing, urllib.parse, uuid''"
  unfolding available_def SAFE_MODULES_def SAFE_MODULES_list_def
  by code_simp

lemma available_props: "sorted available \<and> distinct available \<and> set available = SAFE_MODULES"
  by (simp add: available_def SAFE_MODULES_def)

text \<open>
  Claim C1, as the code has it. A top-level request (\<open>level = 0\<close>) is passed to the real
  loader if and only if the name is in the allowlist or is the parent package of a dotted
  name of the allowlist; a top-level request that is refused raises an \<^verbatim>\<open>ImportError\<close>
  whose message names the module and lists the whole allowlist, sorted, each name once.
  A relative request (\<open>level \<noteq> 0\<close>) is refused whatever the name, with the fixed
  message \<^verbatim>\<open>Relative imports are not allowed\<close>, which lists nothing.
\<close>

theorem safe_import_guard:
  "(level = 0 \<longrightarrow>
      ((\<exists>m. safe_import nm level = Inr m) \<longleftrightarrow>
         (nm \<in> SAFE_MODULES \<or> (\<exists>m\<in>SAFE_MODULES. \<exists>rest. m = nm @ ''.'' @ rest)))
      \<and> (safe_import nm level = Inr nm
           \<or> safe_import nm level =
               Inl (PyException ''ImportError''
                     (''Import of '' @ [CHR 0x27] @ nm @ [CHR 0x27] @ '' is not allowed. ''
                      @ ''Available modules: '' @ join '', '' available))))
   \<and> (level \<noteq> 0 \<longrightarrow>
        safe_import nm level =
          Inl (PyException ''ImportError'' ''Relative imports are not allowed''))
   \<and> sorted available \<and> distinct available \<and> set available = SAFE_MODULES"
  unfolding parent_spec
  by (simp add: safe_import_def available_props)

theorem safe_import_guard_witness:
  "safe_import ''urllib'' 0 = Inr ''urllib''
   \<and> safe_import ''urllib.request'' 0 =
       Inl (PyException ''ImportError''
             (''Import of '' @ [CHR 0x27] @ ''urllib.request'' @ [CHR 0x27]
              @ '' is not allowed. Available modules: ''
              @ ''abc, asyncio, base64, bisect, calendar, collections, concurrent.futures, ''
              @ ''copy, dataclasses, datetime, decimal, enum, fractions, functools, hashlib, ''
              @ ''heapq, io, itertools, json, math, operator, pprint, random, re, statistics, ''
              @ ''string, textwrap, time, types, typing, urllib.parse, uuid''))
   \<and> safe_import ''math'' 1 =
       Inl (PyException ''ImportError'' ''Relative imports are not allowed'')"
proof -
  have a: "''urllib'' \<in> SAFE_MODULES
           \<or> (\<exists>m\<in>SAFE_MODULES. \<exists>rest. m = ''urllib'' @ ''.'' @ rest)"
    unfolding parent_spec parents_eq by simp
  have 1: "safe_import ''urllib'' 0 = Inr ''urllib''"
    using safe_import_guard [of 0 "''urllib''"] a by auto
  have b: "\<not> (''urllib.request'' \<in> SAFE_MODULES
              \<or> (\<exists>m\<in>SAFE_MODULES. \<exists>rest. m = ''urllib.request'' @ ''.'' @ rest))"
    unfolding parent_spec parents_eq by (simp add: SAFE_MODULES_def SAFE_MODULES_list_def)
  have 2: "safe_import ''urllib.request'' 0 =
             Inl (PyException ''ImportError''
                   (''Import of '' @ [CHR 0x27] @ ''urllib.request'' @ [CHR 0x27]
                    @ '' is not allowed. '' @ ''Available modules: '' @ join '', '' available))"
    using safe_import_guard [of 0 "''urllib.request''"] b by auto
  have 3: "safe_import ''math'' 1 =
             Inl (PyException ''ImportError'' ''Relative imports are not allowed'')"
    using safe_import_guard [of 1 "''math''"] by simp
  show ?thesis
    unfolding 1 2 3 join_available by simp
qed

text \<open>
  Claim C1 as it is stated fails for relative requests: the refusal of \<^verbatim>\<open>os\<close> at
  level 1 carries a message in which the allowlisted \<^verbatim>\<open>math\<close> does not occur.
\<close>

theorem relative_rejection_counterexample:
  "safe_import ''os'' 1 = Inl (PyException ''ImportError'' ''Relative imports are not allowed'')
   \<and> ''math'' \<in> SAFE_MODULES
   \<and> \<not> occurs_in ''math'' ''Relative imports are not allowed''"
  by (simp add: safe_import_def SAFE_MODULES_def SAFE_MODULES_list_def)

section \<open>Properties of the string projection\<close>

text \<open>
  Claim C2, as the code has it. On success \<open>to_string\<close> is the captured standard output
  if that is not empty, else the printed form of the trailing value if there is one,
  else the empty text. On failure it is the captured standard error if that is not
  empty, else the failure description if one is present and not empty, else the text
  \<^verbatim>\<open>Unknown error\<close>.
\<close>

theorem to_string_projection:
  "to_string repr r =
     (if success r then
        (if output_text r \<noteq> [] then output_text r
         else if return_value r \<noteq> PNone then repr (return_value r) else [])
      else if error_output r \<noteq> [] then error_output r
      else if error r \<noteq> None \<and> error r \<noteq> Some [] then the (error r)
      else ''Unknown error'')"
  by (auto simp: to_string_def split: option.splits)

theorem to_string_projection_witness:
  "to_string (\<lambda>v. ''7'') (ExecutionResult_default\<lparr>return_value := PInt 7\<rparr>) = ''7''
   \<and> to_string (\<lambda>v. ''7'')
        (ExecutionResult_default\<lparr>success := False, error := Some ''Something failed''\<rparr>)
       = ''Something failed''"
  using to_string_projection [of "\<lambda>v. ''7''" "ExecutionResult_default\<lparr>return_value := PInt 7\<rparr>"]
    to_string_projection [of "\<lambda>v. ''7''"
      "ExecutionResult_default\<lparr>success := False, error := Some ''Something failed''\<rparr>"]
  by (simp add: ExecutionResult_default_def)

text \<open>
  Claim C2 as it is stated fails on a failed result without a failure description, and
  on one whose description is the empty text: the projection is \<^verbatim>\<open>Unknown error\<close>,
  which is not the failure description.
\<close>

theorem to_string_counterexample:
  "Some (to_string (\<lambda>v. []) (ExecutionResult_default\<lparr>success := False\<rparr>))
     \<noteq> error (ExecutionResult_default\<lparr>success := False\<rparr>)
   \<and> to_string (\<lambda>v. []) (ExecutionResult_default\<lparr>success := False, error := Some []\<rparr>) \<noteq> []"
  by (simp add: to_string_def ExecutionResult_default_def)

section \<open>Properties of the result record\<close>

text \<open>
  Claim C3. In a returned result \<open>success\<close> is false exactly when \<open>error\<close> is present.
  The code sets \<open>success\<close> on line 308 and formats the fault on line 309: for the script
  that raises an exception whose \<^verbatim>\<open>__str__\<close> raises, run inside a running event loop
  (the worker-based strategy), the formatting fails in the worker and the result that
  \<^verbatim>\<open>execute_code\<close> returns has \<open>success = False\<close> and no \<open>error\<close>.
\<close>
theorem failure_without_description:
  "execute_code example_python loop_host unprintable_script [] 30 =
     Result \<lparr>output_text = [], error_output = [], return_value = PNone, tool_calls = [],
             success = False, error = None\<rparr>
       (loop_host\<lparr>executions := 1\<rparr>)"
  by (simp add: execute_code_def example_defs)

section \<open>Properties of the call-logging wrapper\<close>



section \<open>Properties of the script splitter\<close>

text \<open>
  Claim C6. A script text that fails to parse gives a failed result, nothing having run.
  For the text of one lone surrogate \<^verbatim>\<open>ast.parse\<close> raises \<^verbatim>\<open>UnicodeEncodeError\<close>, which
  the clause \<^verbatim>\<open>except SyntaxError\<close> does not catch: the fault leaves \<^verbatim>\<open>execute_code\<close>
  and no result is returned.
\<close>
theorem parse_fault_reaches_caller:
  "execute_code example_python main_host surrogate_script [(''addNumbers'', addNumbers)] 30 =
     Propagated
       (PyException ''UnicodeEncodeError''
          ([CHR 0x27] @ ''utf-8'' @ [CHR 0x27] @ '' codec can't encode character ''
           @ [CHR 0x27, CHR 0x5C] @ ''ud800'' @ [CHR 0x27]
           @ '' in position 0: surrogates not allowed''))
       main_host"
  by (simp add: execute_code_def example_python_def example_parse_def surrogate_script_def
      is_hex_literal_script_def)

text \<open>
  Claim C4. A script that parses and ends in a bare expression has that expression split
  off, the body run first and the value of the expression returned as the trailing
  value. The script of one hexadecimal literal of 4000 digits parses and ends in a bare
  expression; \<^verbatim>\<open>ast.unparse\<close>, called outside any \<^verbatim>\<open>try\<close>, raises \<^verbatim>\<open>ValueError\<close> on
  it, the fault leaves \<^verbatim>\<open>execute_code\<close> and no result is returned.
\<close>
theorem unparse_fault_reaches_caller:
  "execute_code example_python main_host hex_literal_script [(''addNumbers'', addNumbers)] 30 =
     Propagated
       (PyException ''ValueError''
          (''Exceeds the limit (4300 digits) for integer string conversion; ''
           @ ''use sys.set_int_max_str_digits() to increase the limit''))
       main_host"
  by (simp add: execute_code_def example_python_def example_parse_def is_hex hex_literal_def
      split_trailing_def)

section \<open>Properties of the call log\<close>

text \<open>
  Claim C7, as the code has it. The call log of a returned result holds one record for
  each capability invocation that returned, in the order the invocations came back; an
  invocation whose callable raises adds none. When no invocation is made while another
  is in progress and none raises, the records are those of the invocations in the order
  the script issued them, and there are as many records as invocations.
\<close>
theorem call_log_in_completion_order:
  assumes "ast_parse py code = Module_AST body"
    and "execute_code py h code tools timeout = Result r h'"
  shows "tool_calls r =
           records_of (events (strategy_of h) (timeout_fault py timeout) (the_script body tools)
                         (ambient h) (Some (deadline h timeout)))
     \<and> (plain_calls (events (strategy_of h) (timeout_fault py timeout) (the_script body tools)
                       (ambient h) (Some (deadline h timeout))) \<longrightarrow>
          map (\<lambda>c. (rec_name c, rec_args c, rec_kwargs c)) (tool_calls r) =
            issue_order (events (strategy_of h) (timeout_fault py timeout)
                           (the_script body tools) (ambient h) (Some (deadline h timeout)))
          \<and> length (tool_calls r) =
              length (issue_order (events (strategy_of h) (timeout_fault py timeout)
                           (the_script body tools) (ambient h) (Some (deadline h timeout)))))"
proof -
  obtain s' out where rn: "run (strategy_of h) (timeout_fault py timeout) (the_script body tools)
               (entered_vm h timeout) = (s', out)"
    by (cases "run (strategy_of h) (timeout_fault py timeout) (the_script body tools)
               (entered_vm h timeout)")
  note t = execute_code_trace(1) [OF assms rn]
  show ?thesis
    unfolding t by (simp add: issue_order_plain length_issue_order_plain)
qed

theorem call_log_in_completion_order_witness:
  "execute_code example_python main_host ''x = addNumbers(1, 2); addNumbers(x, 4)''
     [(''addNumbers'', addNumbers)] 30 =
   Result \<lparr>output_text = [], error_output = [], return_value = PInt 7,
           tool_calls = [\<lparr>rec_name = ''addNumbers'', rec_args = [PInt 1, PInt 2],
                           rec_kwargs = [], rec_result = PInt 3\<rparr>,
                         \<lparr>rec_name = ''addNumbers'', rec_args = [PInt 3, PInt 4],
                           rec_kwargs = [], rec_result = PInt 7\<rparr>],
           success = True, error = None\<rparr>
     (main_host\<lparr>executions := 1\<rparr>)
   \<and> issue_order
        (events Interrupt_Based (timeout_fault example_python 30)
           (the_script [Stmt None (assign_call ''x'' ''addNumbers'' [PInt 1, PInt 2]),
                        Expr None (call_with_variable ''addNumbers'' ''x'' (PInt 4))]
              [(''addNumbers'', addNumbers)]) 0 (Some 30)) =
       [(''addNumbers'', [PInt 1, PInt 2], []), (''addNumbers'', [PInt 3, PInt 4], [])]"
proof -
  have s: "strategy_of main_host = Interrupt_Based" "ambient main_host = 0"
    "deadline main_host 30 = 30"
    by (simp_all add: strategy_of_def deadline_def use_signal_def main_host_def py_int_def)
  have p: "plain_calls
     (events Interrupt_Based (timeout_fault example_python 30)
        (the_script [Stmt None (assign_call ''x'' ''addNumbers'' [PInt 1, PInt 2]),
                     Expr None (call_with_variable ''addNumbers'' ''x'' (PInt 4))]
           [(''addNumbers'', addNumbers)]) 0 (Some 30))"
    unfolding two_calls_events by simp
  show ?thesis
    using call_log_in_completion_order [OF two_calls_parse two_calls_result] p
    unfolding s two_calls_result
    by simp
qed

text \<open>
  Claim C7 as it is stated fails in two ways. The script \<^verbatim>\<open>failing_tool(1)\<close> invokes a
  capability once and its log is empty. The script that ends in \<^verbatim>\<open>addNumbers(A(), 0)\<close>
  issues that invocation first and, from \<^verbatim>\<open>A.__add__\<close>, the invocation
  \<^verbatim>\<open>addNumbers(1, 2)\<close> second; the log holds the record of the second before that of the
  first.
\<close>
theorem call_log_counterexample:
  "ast_parse example_python ''failing_tool(1)'' =
     Module_AST [Expr None (call_name ''failing_tool'' [PInt 1])]
   \<and> execute_code example_python main_host ''failing_tool(1)''
       [(''failing_tool'', failing_tool)] 30 =
     Result \<lparr>output_text = [],
             error_output = ''Traceback (most recent call last):'' @ [CHR 0x0A],
             return_value = PNone, tool_calls = [], success = False,
             error = Some ''RuntimeError: tool broke''\<rparr>
       (main_host\<lparr>executions := 1\<rparr>)
   \<and> issue_order
        (events Interrupt_Based (timeout_fault example_python 30)
           (the_script [Expr None (call_name ''failing_tool'' [PInt 1])]
              [(''failing_tool'', failing_tool)]) 0 (Some 30)) =
       [(''failing_tool'', [PInt 1], [])]
   \<and> ast_parse example_python nested_script =
       Module_AST [Stmt None class_A,
                   Expr None (call_name ''addNumbers'' [PObject ''A'', PInt 0])]
   \<and> execute_code example_python main_host nested_script [(''addNumbers'', addNumbers)] 30 =
     Result \<lparr>output_text = [], error_output = [], return_value = PInt 3,
             tool_calls = [\<lparr>rec_name = ''addNumbers'', rec_args = [PInt 1, PInt 2],
                             rec_kwargs = [], rec_result = PInt 3\<rparr>,
                           \<lparr>rec_name = ''addNumbers'', rec_args = [PObject ''A'', PInt 0],
                             rec_kwargs = [], rec_result = PInt 3\<rparr>],
             success = True, error = None\<rparr>
       (main_host\<lparr>executions := 1\<rparr>)
   \<and> issue_order
        (events Interrupt_Based (timeout_fault example_python 30)
           (the_script [Stmt None class_A,
                        Expr None (call_name ''addNumbers'' [PObject ''A'', PInt 0])]
              [(''addNumbers'', addNumbers)]) 0 (Some 30)) =
       [(''addNumbers'', [PObject ''A'', PInt 0], []), (''addNumbers'', [PInt 1, PInt 2], [])]"
proof -
  have 1: "ast_parse example_python ''failing_tool(1)'' =
     Module_AST [Expr None (call_name ''failing_tool'' [PInt 1])]"
    by (simp add: parse_defs)
  have 2: "ast_parse example_python nested_script =
       Module_AST [Stmt None class_A,
                   Expr None (call_name ''addNumbers'' [PObject ''A'', PInt 0])]"
    by (simp add: parse_defs)
  have 3: "execute_code example_python main_host ''failing_tool(1)''
       [(''failing_tool'', failing_tool)] 30 =
     Result \<lparr>output_text = [],
             error_output = ''Traceback (most recent call last):'' @ [CHR 0x0A],
             return_value = PNone, tool_calls = [], success = False,
             error = Some ''RuntimeError: tool broke''\<rparr>
       (main_host\<lparr>executions := 1\<rparr>)"
    by (simp add: execute_code_def example_defs)
  have 4: "execute_code example_python main_host nested_script [(''addNumbers'', addNumbers)] 30 =
     Result \<lparr>output_text = [], error_output = [], return_value = PInt 3,
             tool_calls = [\<lparr>rec_name = ''addNumbers'', rec_args = [PInt 1, PInt 2],
                             rec_kwargs = [], rec_result = PInt 3\<rparr>,
                           \<lparr>rec_name = ''addNumbers'', rec_args = [PObject ''A'', PInt 0],
                             rec_kwargs = [], rec_result = PInt 3\<rparr>],
             success = True, error = None\<rparr>
       (main_host\<lparr>executions := 1\<rparr>)"
    by (simp add: execute_code_def example_defs)
  have 5: "issue_order
        (events Interrupt_Based (timeout_fault example_python 30)
           (the_script [Expr None (call_name ''failing_tool'' [PInt 1])]
              [(''failing_tool'', failing_tool)]) 0 (Some 30)) =
       [(''failing_tool'', [PInt 1], [])]"
    by (simp add: example_defs)
  have 6: "issue_order
        (events Interrupt_Based (timeout_fault example_python 30)
           (the_script [Stmt None class_A,
                        Expr None (call_name ''addNumbers'' [PObject ''A'', PInt 0])]
              [(''addNumbers'', addNumbers)]) 0 (Some 30)) =
       [(''addNumbers'', [PObject ''A'', PInt 0], []), (''addNumbers'', [PInt 1, PInt 2], [])]"
    by (simp add: example_defs)
  show ?thesis using 1 2 3 4 5 6 by blast
qed

section \<open>Properties of the timeout\<close>

text \<open>
  Claim C8. A script still running when the budget of \<open>B\<close> seconds has elapsed gives a
  failed result that states the budget, under either strategy. With a budget of half a
  second, the script that sleeps 0.7 seconds is still running when the budget has
  elapsed (first conjunct). On the main thread the alarm is armed for
  \<^verbatim>\<open>max(1, int(0.5))\<close>, one second, and the result is a success (second conjunct);
  inside a running event loop the same call reports the timeout (third conjunct).
\<close>
theorem subsecond_budget_not_enforced:
  "seen (snd (run Worker_Based (timeout_fault example_python (1 / 2))
          (the_script [Stmt None (import_module ''time''), Expr None (time_sleep (7 / 10))] [])
          (entered_vm loop_host (1 / 2)))) = None
   \<and> execute_code example_python main_host ''import time; time.sleep(0.7)'' [] (1 / 2) =
       Result \<lparr>output_text = [], error_output = [], return_value = PNone, tool_calls = [],
               success = True, error = None\<rparr> (main_host\<lparr>executions := 1\<rparr>)
   \<and> reply_outcome
        (execute_code example_python loop_host ''import time; time.sleep(0.7)'' [] (1 / 2)) =
       Some (Inr \<lparr>output_text = [], error_output = [], return_value = PNone, tool_calls = [],
                  success = False, error = Some ''Execution timed out after 0.5 seconds''\<rparr>)"
  by (simp add: execute_code_def example_defs)

text \<open>
  Claim C10, as the code has it. Under the worker-based strategy, when the script is
  still running at the end of the wait, \<^verbatim>\<open>execute_code\<close> returns a failed result with
  the timeout message, whose call log holds the records of the invocations that
  returned before the end of the wait; when no other thread of the process writes to or
  re-targets \<^verbatim>\<open>sys.stdout\<close> and \<^verbatim>\<open>sys.stderr\<close> meanwhile, its two texts are those the
  script wrote before the end of the wait.
\<close>
theorem worker_timeout_keeps_effects:
  assumes "ast_parse py code = Module_AST body"
    and "\<not> use_signal h"
    and "timeout \<le> TIMEOUT_MAX py"
    and "seen (snd (run Worker_Based (timeout_fault py timeout) (the_script body tools)
                      (entered_vm h timeout))) = None"
  shows "\<exists>r h'. execute_code py h code tools timeout = Result r h'
           \<and> success r = False \<and> error r = Some (timeout_message py timeout)
           \<and> tool_calls r =
               records_of (events Worker_Based (timeout_fault py timeout)
                             (the_script body tools) (ambient h) (Some (max timeout 0)))
           \<and> (other_threads h = [] \<longrightarrow>
                output_text r =
                  stdout_of (events Worker_Based (timeout_fault py timeout)
                               (the_script body tools) (ambient h) (Some (max timeout 0)))
                \<and> error_output r =
                    stderr_of (events Worker_Based (timeout_fault py timeout)
                                 (the_script body tools) (ambient h) (Some (max timeout 0))))"
proof -
  have st: "strategy_of h = Worker_Based" "deadline h timeout = max timeout 0"
    using assms(2) by (simp_all add: strategy_of_def deadline_def)
  obtain r h' where res: "execute_code py h code tools timeout = Result r h'"
    and f: "success r = False" "error r = Some (timeout_message py timeout)"
    using worker_timeout_result [OF assms] by blast
  obtain s' out where rn: "run Worker_Based (timeout_fault py timeout) (the_script body tools)
               (entered_vm h timeout) = (s', out)"
    by (cases "run Worker_Based (timeout_fault py timeout) (the_script body tools)
               (entered_vm h timeout)")
  with assms(4) have "seen out = None" by simp
  then have tb: "traceback_of py out = []" by (cases out) simp_all
  have log: "tool_calls r =
               records_of (events Worker_Based (timeout_fault py timeout)
                             (the_script body tools) (ambient h) (Some (max timeout 0)))"
    using execute_code_trace(1) [OF assms(1) res, unfolded st, OF rn] .
  have texts: "output_text r =
                  stdout_of (events Worker_Based (timeout_fault py timeout)
                               (the_script body tools) (ambient h) (Some (max timeout 0)))
                \<and> error_output r =
                    stderr_of (events Worker_Based (timeout_fault py timeout)
                                 (the_script body tools) (ambient h) (Some (max timeout 0)))"
    if q: "other_threads h = []"
    using execute_code_quiet_trace [OF assms(1) res q, unfolded st] rn tb by simp
  show ?thesis using res f log texts by blast
qed

theorem worker_timeout_keeps_effects_witness:
  "execute_code example_python loop_host
     (''print('hello'); addNumbers(3, 4)'' @ [CHR 0x0A] @ ''while True: pass'')
     [(''addNumbers'', addNumbers)] 1 =
   Result \<lparr>output_text = ''hello'' @ [CHR 0x0A], error_output = [], return_value = PNone,
           tool_calls = [\<lparr>rec_name = ''addNumbers'', rec_args = [PInt 3, PInt 4],
                           rec_kwargs = [], rec_result = PInt 7\<rparr>],
           success = False, error = Some ''Execution timed out after 1.0 seconds''\<rparr>
     (loop_host\<lparr>host_stdout := Buffer_Of 0, host_stderr := Buffer_Of 0, executions := 1\<rparr>)
   \<and> stdout_of (events Worker_Based (timeout_fault example_python 1)
        (the_script [Expr None (print_text ''hello''),
                     Expr None (call_name ''addNumbers'' [PInt 3, PInt 4]),
                     Stmt None while_true_pass] [(''addNumbers'', addNumbers)])
        (ambient loop_host) (Some (max 1 0))) = ''hello'' @ [CHR 0x0A]
   \<and> records_of (events Worker_Based (timeout_fault example_python 1)
        (the_script [Expr None (print_text ''hello''),
                     Expr None (call_name ''addNumbers'' [PInt 3, PInt 4]),
                     Stmt None while_true_pass] [(''addNumbers'', addNumbers)])
        (ambient loop_host) (Some (max 1 0))) =
       [\<lparr>rec_name = ''addNumbers'', rec_args = [PInt 3, PInt 4], rec_kwargs = [],
         rec_result = PInt 7\<rparr>]"
proof -
  have w: "\<not> use_signal loop_host"
    by (simp add: use_signal_def loop_host_def main_host_def)
  have a: "(1::rat) \<le> TIMEOUT_MAX example_python"
    by (simp add: example_python_def)
  have q: "other_threads loop_host = []"
    by (simp add: loop_host_def main_host_def)
  have m: "max (1::rat) 0 = 1" by simp
  show ?thesis
    using worker_timeout_keeps_effects [OF hang_parse w a hang_still_running] q
    unfolding hang_result m hang_events
    by simp
qed

text \<open>
  Claim C10 as it is stated fails when a worker left running by an earlier execution
  leaves its redirection meanwhile. After \<^verbatim>\<open>time.sleep(1.5)\<close> has timed out under a budget
  of one second, its worker puts \<^verbatim>\<open>sys.stdout\<close> back half a second later; a script run
  then, which prints \<^verbatim>\<open>hello\<close> after one second and is timed out after two, gets a
  result with no output.
\<close>
theorem leaked_worker_counterexample:
  "execute_code example_python loop_host ''import time; time.sleep(1.5)'' [] 1 =
     Result \<lparr>output_text = [], error_output = [], return_value = PNone, tool_calls = [],
             success = False, error = Some ''Execution timed out after 1.0 seconds''\<rparr>
       (loop_host\<lparr>host_stdout := Buffer_Of 0, host_stderr := Buffer_Of 0,
                  other_threads := [(1 / 2, Sets_Stderr Original), (0, Sets_Stdout Original)],
                  executions := 1\<rparr>)
   \<and> execute_code example_python
       (loop_host\<lparr>host_stdout := Buffer_Of 0, host_stderr := Buffer_Of 0,
                  other_threads := [(1 / 2, Sets_Stderr Original), (0, Sets_Stdout Original)],
                  executions := 1\<rparr>)
       ''import time; time.sleep(1); print('hello'); time.sleep(5)'' [] 2 =
     Result \<lparr>output_text = [], error_output = [], return_value = PNone, tool_calls = [],
             success = False, error = Some ''Execution timed out after 2.0 seconds''\<rparr>
       (loop_host\<lparr>host_stdout := Original, host_stderr := Original,
                  other_threads := [(4, Sets_Stderr (Buffer_Of 0)),
                                    (0, Sets_Stdout (Buffer_Of 0))],
                  executions := 2\<rparr>)
   \<and> ast_parse example_python ''import time; time.sleep(1); print('hello'); time.sleep(5)'' =
       Module_AST [Stmt None (import_module ''time''), Expr None (time_sleep 1),
                   Expr None (print_text ''hello''), Expr None (time_sleep 5)]
   \<and> stdout_of (events Worker_Based (timeout_fault example_python 2)
        (the_script [Stmt None (import_module ''time''), Expr None (time_sleep 1),
                     Expr None (print_text ''hello''), Expr None (time_sleep 5)] [])
        0 (Some 2)) = ''hello'' @ [CHR 0x0A]"
proof -
  have 1: "execute_code example_python loop_host ''import time; time.sleep(1.5)'' [] 1 =
     Result \<lparr>output_text = [], error_output = [], return_value = PNone, tool_calls = [],
             success = False, error = Some ''Execution timed out after 1.0 seconds''\<rparr>
       (loop_host\<lparr>host_stdout := Buffer_Of 0, host_stderr := Buffer_Of 0,
                  other_threads := [(1 / 2, Sets_Stderr Original), (0, Sets_Stdout Original)],
                  executions := 1\<rparr>)"
    by (simp add: execute_code_def example_defs Let_def)
  have 2: "execute_code example_python
       (loop_host\<lparr>host_stdout := Buffer_Of 0, host_stderr := Buffer_Of 0,
                  other_threads := [(1 / 2, Sets_Stderr Original), (0, Sets_Stdout Original)],
                  executions := 1\<rparr>)
       ''import time; time.sleep(1); print('hello'); time.sleep(5)'' [] 2 =
     Result \<lparr>output_text = [], error_output = [], return_value = PNone, tool_calls = [],
             success = False, error = Some ''Execution timed out after 2.0 seconds''\<rparr>
       (loop_host\<lparr>host_stdout := Original, host_stderr := Original,
                  other_threads := [(4, Sets_Stderr (Buffer_Of 0)),
                                    (0, Sets_Stdout (Buffer_Of 0))],
                  executions := 2\<rparr>)"
    by (simp add: execute_code_def example_defs Let_def)
  have 3: "ast_parse example_python ''import time; time.sleep(1); print('hello'); time.sleep(5)'' =
       Module_AST [Stmt None (import_module ''time''), Expr None (time_sleep 1),
                   Expr None (print_text ''hello''), Expr None (time_sleep 5)]"
    by (simp add: parse_defs)
  have 4: "stdout_of (events Worker_Based (timeout_fault example_python 2)
        (the_script [Stmt None (import_module ''time''), Expr None (time_sleep 1),
                     Expr None (print_text ''hello''), Expr None (time_sleep 5)] [])
        0 (Some 2)) = ''hello'' @ [CHR 0x0A]"
    by (simp add: example_defs)
  show ?thesis using 1 2 3 4 by blast
qed

section \<open>Properties of repeated executions\<close>




end
